theory Spec2Isabelle
  imports Main "HOL-Library.AList"
begin

section \<open>JavaScript values, objects and strings\<close>

text \<open>
  The chat component keeps its business profile in an untyped object and reads database
  rows as untyped values. A value is one of the JSON shapes plus \<open>undefined\<close>.
  Numbers that occur here (ratings, counters) are integers.
\<close>

datatype jsval =
    JUndefined
  | JNull
  | JBool bool
  | JNum int
  | JStr string
  | JArr "jsval list"
  | JObj "(string \<times> jsval) list"

text \<open>
  An object is the list of its own properties in insertion order. Assigning to a property
  that exists keeps its place, assigning to a new one appends it; that is
  \<^const>\<open>AList.update\<close>. Reading a missing property gives \<open>undefined\<close>.
\<close>

type_synonym jsobj = "(string \<times> jsval) list"

definition getProp :: "jsobj \<Rightarrow> string \<Rightarrow> jsval" where
  "getProp obj k = (case map_of obj k of None \<Rightarrow> JUndefined | Some v \<Rightarrow> v)"

definition setProp :: "jsobj \<Rightarrow> string \<Rightarrow> jsval \<Rightarrow> jsobj" where
  "setProp obj k v = AList.update k v obj"

definition keys :: "jsobj \<Rightarrow> string list" where
  "keys obj = map fst obj"

text \<open>The object spread \<open>{...a, ...b}\<close>: the properties of \<open>b\<close> assigned onto \<open>a\<close> in order.\<close>

definition spread :: "jsobj \<Rightarrow> jsobj \<Rightarrow> jsobj" where
  "spread a b = foldl (\<lambda>acc kv. setProp acc (fst kv) (snd kv)) a b"

text \<open>
  Strings are lists of 8-bit characters, read as code units below 256. The white space
  that \<open>String.prototype.trim\<close> and \<open>parseInt\<close> skip is, in that range: tab, line
  feed, vertical tab, form feed, carriage return, space and the no-break space.
\<close>

definition isWhiteSpace :: "char \<Rightarrow> bool" where
  "isWhiteSpace c = ((of_char c :: nat) \<in> {9, 10, 11, 12, 13, 32, 160})"

definition trim :: "string \<Rightarrow> string" where
  "trim s = rev (dropWhile isWhiteSpace (rev (dropWhile isWhiteSpace s)))"

text \<open>The value of a character as a digit in radix \<open>R\<close>, if it is one.\<close>

definition digitValue :: "nat \<Rightarrow> char \<Rightarrow> nat option" where
  "digitValue R c =
     (let n = (of_char c :: nat);
          v = (if 48 \<le> n \<and> n \<le> 57 then Some (n - 48)
               else if 97 \<le> n \<and> n \<le> 122 then Some (n - 87)
               else if 65 \<le> n \<and> n \<le> 90 then Some (n - 55)
               else None)
      in case v of None \<Rightarrow> None | Some d \<Rightarrow> if d < R then Some d else None)"

fun leadingDigits :: "nat \<Rightarrow> string \<Rightarrow> nat list" where
  "leadingDigits R [] = []"
| "leadingDigits R (c # cs) =
     (case digitValue R c of None \<Rightarrow> [] | Some d \<Rightarrow> d # leadingDigits R cs)"

text \<open>
  \<open>parseInt(str)\<close> with no radix argument: skip leading white space, read an optional
  sign, switch to radix 16 after \<open>0x\<close> or \<open>0X\<close>, and take the longest prefix of digits.
  No digit at all gives \<open>NaN\<close>, here \<open>None\<close>. The result is kept as an unbounded
  integer; every comparison of this development is with 1 and 5, where the rounding
  of very long digit strings to a double makes no difference.
\<close>

definition parseInt :: "string \<Rightarrow> int option" where
  "parseInt str =
     (let S = dropWhile isWhiteSpace str;
          sign = (case S of c # _ \<Rightarrow> if c = CHR ''-'' then - 1 else (1::int) | [] \<Rightarrow> 1);
          S1 = (case S of c # cs \<Rightarrow> if c = CHR ''-'' \<or> c = CHR ''+'' then cs else S | [] \<Rightarrow> S);
          hex = (take 2 S1 = ''0x'' \<or> take 2 S1 = ''0X'');
          R = (if hex then 16 else 10);
          S2 = (if hex then drop 2 S1 else S1);
          Z = leadingDigits R S2
      in if Z = [] then None
         else Some (sign * int (foldl (\<lambda>acc d. acc * R + d) 0 Z)))"

text \<open>\<open>xs.join(sep)\<close> on a list of strings.\<close>

fun join :: "string \<Rightarrow> string list \<Rightarrow> string" where
  "join sep [] = []"
| "join sep [x] = x"
| "join sep (x # y # ys) = x @ sep @ join sep (y # ys)"

text \<open>
  \<open>s.charAt(0).toUpperCase() + s.slice(1)\<close>. The strings it is applied to are the four
  ASCII service names, so upper-casing is given on the ASCII letters.
\<close>

definition toUpperCase_char :: "char \<Rightarrow> char" where
  "toUpperCase_char c =
     (case map_of (zip ''abcdefghijklmnopqrstuvwxyz'' ''ABCDEFGHIJKLMNOPQRSTUVWXYZ'') c of
        None \<Rightarrow> c | Some u \<Rightarrow> u)"

definition capitalize :: "string \<Rightarrow> string" where
  "capitalize s = map toUpperCase_char (take 1 s) @ drop 1 s"

section \<open>The data of the chat component\<close>

datatype Role = User | Ai

datatype ViewMode = Chat | Dashboard | DocumentView

datatype FlowStage = Initial | Questioning | Generating | Documents | Rating

datatype DocType = Registration | Branding | Compliance | Hr

datatype DocStatus = StatusGenerating | StatusCompleted | StatusFailed

datatype SessionStatus = Active | SessionCompleted | Abandoned

datatype Error = TypeError

text \<open>
  A document of the dashboard. Its key points, content and PDF reference are kept as
  the values the response or the stored row gave, whatever their shape; a document
  without a PDF reference has \<open>undefined\<close> there.
\<close>

record Document =
  d_id :: string
  d_type :: DocType
  d_title :: string
  d_keyPoints :: jsval
  d_fullContent :: jsval
  d_pdfUrl :: jsval
  d_status :: DocStatus

record Mentor =
  name :: string
  email :: string
  phone :: "string option"
  specialization :: "string list"

record MentorCard =
  c_name :: string
  c_email :: string
  c_phone :: string
  c_expertise :: string
  c_service :: string

text \<open>
  The text of a message. The fixed texts of the component are named rather than spelled
  out (several hold characters outside ASCII); the parts that vary are arguments:
  \<open>NextQuestion i\<close> is "Got it! Question i+1 of 6: prompt of question i",
  \<open>ThankYouRating r\<close> is "Thank you for your r-star rating!" (with a second sentence
  when \<open>r \<ge> 4\<close>), \<open>InvalidRating\<close> is "Please provide a valid rating between 1 and 5.".
\<close>

datatype Content =
    UserText string
  | Welcome
  | IdeaTuningSoon
  | FirstQuestion
  | ChooseOption
  | NextQuestion nat
  | Processing
  | RatingRequest
  | ThankYouRating int
  | FeedbackRequest
  | FinalMessage
  | FeedbackThankYou
  | RecommendedMentors
  | InvalidRating

text \<open>A message of the conversation; its id and timestamp come from the clock and are left out.\<close>

record Message =
  m_type :: Role
  m_content :: Content
  m_mentorCards :: "MentorCard list option"

definition aiMessage :: "Content \<Rightarrow> Message" where
  "aiMessage c = \<lparr>m_type = Ai, m_content = c, m_mentorCards = None\<rparr>"

definition userMessage :: "string \<Rightarrow> Message" where
  "userMessage txt = \<lparr>m_type = User, m_content = UserText txt, m_mentorCards = None\<rparr>"

text \<open>
  A callback handed to \<open>setTimeout\<close>. It runs later, with the session id and the user
  of the render that scheduled it (the two values its closure holds).
\<close>

datatype Timer =
    RatingTimer string "string option"
  | FeedbackTimer string "string option"
  | FinalTimer string "string option"
  | MentorTimer "MentorCard list" string "string option"

record ChatRow =
  cm_session_id :: string
  cm_user_id :: string
  cm_message_type :: Role
  cm_content :: Content

record RatingRow =
  rt_user_id :: "string option"
  rt_session_id :: string
  rt_service_type :: string
  rt_rating :: int

text \<open>
  The state: the React state of the component (the user is kept as the user's id, the only
  part that is read), then the tables it writes to, then the pending timers.
  \<open>stageLog\<close> holds every stage that \<open>setFlowStage\<close> was called with, in the order of
  the calls: a handler that sets two stages in a row leaves both there.
\<close>

record State =
  messages :: "Message list"
  currentUser :: "string option"
  currentSessionId :: string
  viewMode :: ViewMode
  flowStage :: FlowStage
  stageLog :: "FlowStage list"
  currentQuestionIndex :: nat
  businessProfile :: jsobj
  documents :: "Document list"
  awaitingRating :: bool
  ratingFeedback :: string
  chat_messages :: "ChatRow list"
  user_sessions :: "(string \<times> SessionStatus) list"
  business_profiles :: "jsobj list"
  ratings :: "RatingRow list"
  timers :: "Timer list"

section \<open>What the component receives from outside\<close>

text \<open>
  How one \<open>fetch\<close> ends: it throws, or it gives a response with its \<open>ok\<close> flag and a
  body. Body \<open>None\<close> is a body that \<open>response.json()\<close> cannot parse (it throws);
  otherwise the body is the value that was parsed, of any shape: the client reads it
  untyped.
\<close>

datatype FetchOutcome = FetchThrows | HttpResponse bool "jsval option"

text \<open>A row of the table \<open>generated_documents\<close>, with the columns that are written or read.\<close>

record GeneratedDocumentRow =
  gd_id :: string
  gd_user_id :: string
  gd_session_id :: string
  gd_document_type :: DocType
  gd_document_title :: string
  gd_key_points :: jsval
  gd_full_content :: "string option"
  gd_pdf_url :: "string option"
  gd_pdf_file_name :: "string option"
  gd_generation_status :: DocStatus
  gd_service_type :: string

text \<open>
  The answers of the outside world during one handler: the id of the session row that
  \<open>createSession\<close> inserts (\<open>None\<close> when the insert fails), the outcome of the
  generation request of each document type and the order in which the four requests
  settle, the clock reading used in the document ids, the rows
  \<open>getDocumentsBySession\<close> returns to the reload at the end of the generation (\<open>None\<close>
  when it throws), and the mentor \<open>getMentorForService\<close> finds for a service type.

  The component also reloads the documents by itself, in an effect, whenever the view
  changes to the dashboard while a session id is set. \<open>effectDocuments\<close> are the rows
  that reload receives (\<open>None\<close> when it throws) and \<open>effectPosition\<close> is the number of
  generation requests that have settled when it writes them: the read races with the
  requests, so any position can occur (a position past the number of requests is a read
  that returns after the reload at the end).

  \<open>toNumber\<close> is JavaScript's conversion of a string, an array or an object to a
  number (\<open>None\<close> for \<open>NaN\<close>), used when such a value is compared with 100.
\<close>

record Env =
  newSessionId :: "string option"
  fetchOutcome :: "DocType \<Rightarrow> FetchOutcome"
  settleOrder :: "DocType list"
  clock :: string
  dbDocuments :: "GeneratedDocumentRow list option"
  effectDocuments :: "GeneratedDocumentRow list option"
  effectPosition :: nat
  toNumber :: "jsval \<Rightarrow> int option"
  mentorFor :: "string \<Rightarrow> Mentor option"

section \<open>Session helpers\<close>

text \<open>\<open>saveChatMessage\<close> inserts one row into \<open>chat_messages\<close>.\<close>

definition saveChatMessage :: "string \<Rightarrow> string \<Rightarrow> Role \<Rightarrow> Content \<Rightarrow> State \<Rightarrow> State" where
  "saveChatMessage sid uid ty c s =
     s\<lparr>chat_messages := chat_messages s @
          [\<lparr>cm_session_id = sid, cm_user_id = uid, cm_message_type = ty, cm_content = c\<rparr>]\<rparr>"

text \<open>
  \<open>updateSessionStatus\<close> sets the status of the rows of \<open>user_sessions\<close> with that id
  (and, for completed, the completion time, which is left out).
\<close>

definition updateSessionStatus :: "string \<Rightarrow> SessionStatus \<Rightarrow> State \<Rightarrow> State" where
  "updateSessionStatus sid st s =
     s\<lparr>user_sessions := map (\<lambda>row. if fst row = sid then (fst row, st) else row) (user_sessions s)\<rparr>"

text \<open>\<open>createSession\<close> inserts an active row; the database chooses its id.\<close>

definition createSession :: "string option \<Rightarrow> State \<Rightarrow> State" where
  "createSession result s =
     (case result of
        None \<Rightarrow> s
      | Some sid \<Rightarrow> s\<lparr>user_sessions := user_sessions s @ [(sid, Active)]\<rparr>)"

text \<open>
  Modelled from the spec: \<open>submitRating\<close> of \<open>lib/rating\<close> is not among the sources.
  The spec has it store the session, the user, the service tag and the rating value, and
  enforce nothing about how often it is called. The table \<open>ratings\<close> holds the records
  it was called with, in the order of the calls.
\<close>

definition submitRating :: "RatingRow \<Rightarrow> State \<Rightarrow> State" where
  "submitRating r s = s\<lparr>ratings := ratings s @ [r]\<rparr>"

text \<open>
  \<open>addMessageAndSave\<close> appends the message to the conversation and, when the render it
  belongs to has a session id and a user, saves it. The session id and the user are
  arguments: a handler keeps the values of the render that started it.
\<close>

definition addMessageAndSave :: "string \<Rightarrow> string option \<Rightarrow> Message \<Rightarrow> State \<Rightarrow> State" where
  "addMessageAndSave sid usr m s =
     (let s1 = s\<lparr>messages := messages s @ [m]\<rparr>
      in case usr of
           None \<Rightarrow> s1
         | Some uid \<Rightarrow> if sid \<noteq> [] then saveChatMessage sid uid (m_type m) (m_content m) s1 else s1)"

definition setTimeout :: "Timer \<Rightarrow> State \<Rightarrow> State" where
  "setTimeout t s = s\<lparr>timers := timers s @ [t]\<rparr>"

definition setFlowStage :: "FlowStage \<Rightarrow> State \<Rightarrow> State" where
  "setFlowStage stage s = s\<lparr>flowStage := stage, stageLog := stageLog s @ [stage]\<rparr>"

section \<open>The rating stage\<close>

definition serviceTypes :: "string list" where
  "serviceTypes = [''registration'', ''branding'', ''compliance'', ''hr'']"

text \<open>
  The cards of the mentors that were found: the lookups that gave \<open>null\<close> are filtered
  out, and the card at position \<open>index\<close> of the filtered list is labelled with
  \<open>serviceTypes[index]\<close>. At most four mentors remain, so the index is in range.
\<close>

definition mentorCard :: "Mentor \<Rightarrow> nat \<Rightarrow> MentorCard" where
  "mentorCard mentor index =
     \<lparr>c_name = name mentor,
      c_email = email mentor,
      c_phone = (case phone mentor of None \<Rightarrow> [] | Some p \<Rightarrow> p),
      c_expertise = join '', '' (specialization mentor),
      c_service = capitalize (serviceTypes ! index)\<rparr>"

definition mentorCards :: "Mentor option list \<Rightarrow> MentorCard list" where
  "mentorCards mentors =
     (let found = List.map_filter (\<lambda>m. m) mentors
      in map (\<lambda>(mentor, index). mentorCard mentor index) (zip found [0 ..< length found]))"

text \<open>The test \<open>rating >= 1 && rating <= 5\<close>; it is false for \<open>NaN\<close>.\<close>

definition acceptedRating :: "int option \<Rightarrow> int option" where
  "acceptedRating r =
     (case r of None \<Rightarrow> None | Some n \<Rightarrow> if 1 \<le> n \<and> n \<le> 5 then Some n else None)"

definition handleRatingResponse :: "Env \<Rightarrow> State \<Rightarrow> string \<Rightarrow> State" where
  "handleRatingResponse env s userInput =
     (let sid = currentSessionId s; usr = currentUser s
      in case acceptedRating (parseInt (trim userInput)) of
           Some rating \<Rightarrow>
             (let s1 = s\<lparr>awaitingRating := False\<rparr>;
                  s2 = submitRating
                         \<lparr>rt_user_id = usr, rt_session_id = sid,
                          rt_service_type = ''confirmed_idea_flow'', rt_rating = rating\<rparr> s1;
                  s3 = addMessageAndSave sid usr (aiMessage (ThankYouRating rating)) s2
              in if rating \<le> 3 then setTimeout (FeedbackTimer sid usr) s3
                 else setTimeout (FinalTimer sid usr) s3)
         | None \<Rightarrow>
             if ratingFeedback s = ''awaiting'' then
               (let s1 = s\<lparr>ratingFeedback := []\<rparr>;
                    s2 = addMessageAndSave sid usr (aiMessage FeedbackThankYou) s1;
                    cards = mentorCards (map (mentorFor env) serviceTypes)
                in if length cards > 0 then setTimeout (MentorTimer cards sid usr) s2 else s2)
             else addMessageAndSave sid usr (aiMessage InvalidRating) s)"

text \<open>The callbacks of the rating stage, when their timers fire.\<close>

definition feedbackCallback :: "string \<Rightarrow> string option \<Rightarrow> State \<Rightarrow> State" where
  "feedbackCallback sid usr s =
     (addMessageAndSave sid usr (aiMessage FeedbackRequest) s)\<lparr>ratingFeedback := ''awaiting''\<rparr>"

definition finalCallback :: "string \<Rightarrow> string option \<Rightarrow> State \<Rightarrow> State" where
  "finalCallback sid usr s =
     (let s1 = addMessageAndSave sid usr (aiMessage FinalMessage) s
      in if sid \<noteq> [] then updateSessionStatus sid SessionCompleted s1 else s1)"

definition mentorCallback :: "MentorCard list \<Rightarrow> string \<Rightarrow> string option \<Rightarrow> State \<Rightarrow> State" where
  "mentorCallback cards sid usr s =
     (let s1 = addMessageAndSave sid usr
                 ((aiMessage RecommendedMentors)\<lparr>m_mentorCards := Some cards\<rparr>) s
      in if sid \<noteq> [] then updateSessionStatus sid SessionCompleted s1 else s1)"

section \<open>The questionnaire and the business profile\<close>

record Question =
  q_id :: nat
  q_field :: string
  q_prompt :: string

definition QUESTIONS :: "Question list" where
  "QUESTIONS =
    [\<lparr>q_id = 1, q_field = ''business_name'',
      q_prompt = ''What is the company name or preferred company name?''\<rparr>,
     \<lparr>q_id = 2, q_field = ''company_description'',
      q_prompt = ''Please provide a brief description of the company or company website''\<rparr>,
     \<lparr>q_id = 3, q_field = ''location'',
      q_prompt = ''Which location will the business operate in?''\<rparr>,
     \<lparr>q_id = 4, q_field = ''partners_info'',
      q_prompt = ''Who will be the partners or directors? (How many and their roles?)''\<rparr>,
     \<lparr>q_id = 5, q_field = ''color_preference'',
      q_prompt = ''What color tone would you prefer for branding? (Earthy, Bright, Professional, etc.)''\<rparr>,
     \<lparr>q_id = 6, q_field = ''style_preference'',
      q_prompt = ''What style would you prefer? (Conservative/Classic, Modern/Contemporary, Expressive/Bold)''\<rparr>]"

text \<open>
  The table \<open>business_profiles\<close> is a list of rows, each an object. A query with
  \<open>.eq('session_id', id)\<close> sees the rows whose column has that value;
  \<open>maybeSingle\<close> gives the row when there is exactly one and \<open>null\<close> otherwise;
  an update assigns the given columns in every row it sees; an insert appends the row.
\<close>

definition maybeSingle :: "'a list \<Rightarrow> 'a option" where
  "maybeSingle rows = (case rows of [r] \<Rightarrow> Some r | _ \<Rightarrow> None)"

definition hasSession :: "string \<Rightarrow> jsobj \<Rightarrow> bool" where
  "hasSession sid row = (getProp row ''session_id'' = JStr sid)"

text \<open>The test \<open>profile[key] !== undefined && profile[key] !== null && profile[key] !== ''\<close>.\<close>

definition overwrites :: "jsval \<Rightarrow> bool" where
  "overwrites v = (v \<noteq> JUndefined \<and> v \<noteq> JNull \<and> v \<noteq> JStr [])"

text \<open>The merge of the incoming profile into the stored one, key by key.\<close>

definition mergeProfile :: "jsobj \<Rightarrow> jsobj \<Rightarrow> jsobj" where
  "mergeProfile existingProfile profile =
     foldl (\<lambda>mergedProfile key.
              if overwrites (getProp profile key)
              then setProp mergedProfile key (getProp profile key)
              else mergedProfile)
           existingProfile (keys profile)"

definition updateBusinessProfile :: "string option \<Rightarrow> string \<Rightarrow> jsobj \<Rightarrow> State \<Rightarrow> State" where
  "updateBusinessProfile usr sid profile s =
     (case usr of
        None \<Rightarrow> s
      | Some uid \<Rightarrow>
          if sid = [] then s
          else
            (case maybeSingle (filter (hasSession sid) (business_profiles s)) of
               Some existingProfile \<Rightarrow>
                 (let mergedProfile = mergeProfile existingProfile profile
                  in s\<lparr>business_profiles :=
                         map (\<lambda>row. if hasSession sid row then spread row mergedProfile else row)
                             (business_profiles s)\<rparr>)
             | None \<Rightarrow>
                 s\<lparr>business_profiles := business_profiles s @
                      [spread [(''user_id'', JStr uid), (''session_id'', JStr sid)] profile]\<rparr>))"

section \<open>Document generation\<close>

definition documentTypes :: "DocType list" where
  "documentTypes = [Registration, Branding, Compliance, Hr]"

fun typeName :: "DocType \<Rightarrow> string" where
  "typeName Registration = ''registration''"
| "typeName Branding = ''branding''"
| "typeName Compliance = ''compliance''"
| "typeName Hr = ''hr''"

definition initialDocs :: "string \<Rightarrow> Document list" where
  "initialDocs now =
     map (\<lambda>ty. \<lparr>d_id = typeName ty @ ''-'' @ now,
                 d_type = ty,
                 d_title = capitalize (typeName ty) @ '' Guide'',
                 d_keyPoints = JArr [],
                 d_fullContent = JStr [],
                 d_pdfUrl = JUndefined,
                 d_status = StatusGenerating\<rparr>) documentTypes"

text \<open>
  Truthiness: \<open>undefined\<close>, \<open>null\<close>, \<open>false\<close>, \<open>0\<close> and the empty string are falsy, every
  other value is truthy. \<open>orElse a b\<close> is \<open>a || b\<close>.
\<close>

definition truthy :: "jsval \<Rightarrow> bool" where
  "truthy v =
     (case v of
        JUndefined \<Rightarrow> False
      | JNull \<Rightarrow> False
      | JBool b \<Rightarrow> b
      | JNum n \<Rightarrow> n \<noteq> 0
      | JStr t \<Rightarrow> t \<noteq> []
      | JArr xs \<Rightarrow> True
      | JObj ps \<Rightarrow> True)"

definition orElse :: "jsval \<Rightarrow> jsval \<Rightarrow> jsval" where
  "orElse a b = (if truthy a then a else b)"

text \<open>
  \<open>result.name\<close> for a parsed body other than \<open>null\<close>, and for the names that are read
  from it: an object gives its property, and a string, number, boolean or array has
  no property of these names.
\<close>

definition resultField :: "jsval \<Rightarrow> string \<Rightarrow> jsval" where
  "resultField result k = (case result of JObj ps \<Rightarrow> getProp ps k | _ \<Rightarrow> JUndefined)"

text \<open>\<open>result.fullContent || result.response || ''\<close>\<close>

definition contentOf :: "jsval \<Rightarrow> jsval" where
  "contentOf result =
     orElse (orElse (resultField result ''fullContent'') (resultField result ''response''))
            (JStr [])"

text \<open>
  \<open>v.length\<close> of a truthy value: the length of a string or an array, the property of an
  object, and \<open>undefined\<close> for a number or a boolean.
\<close>

definition lengthOf :: "jsval \<Rightarrow> jsval" where
  "lengthOf v =
     (case v of
        JStr t \<Rightarrow> JNum (int (length t))
      | JArr xs \<Rightarrow> JNum (int (length xs))
      | JObj ps \<Rightarrow> getProp ps ''length''
      | _ \<Rightarrow> JUndefined)"

text \<open>
  \<open>v < 100\<close>: a number is compared, \<open>undefined\<close> converts to \<open>NaN\<close> and is not below,
  \<open>null\<close> and the booleans convert to 0 or 1, and any other value is converted by
  \<open>toNum\<close> first.
\<close>

definition belowHundred :: "(jsval \<Rightarrow> int option) \<Rightarrow> jsval \<Rightarrow> bool" where
  "belowHundred toNum v =
     (case v of
        JNum n \<Rightarrow> n < 100
      | JUndefined \<Rightarrow> False
      | JNull \<Rightarrow> True
      | JBool b \<Rightarrow> True
      | _ \<Rightarrow> (case toNum v of None \<Rightarrow> False | Some n \<Rightarrow> n < 100))"

text \<open>The two updates \<open>setDocuments(prev => prev.map(...))\<close> of \<open>generateDocument\<close>.\<close>

definition markFailed :: "DocType \<Rightarrow> State \<Rightarrow> State" where
  "markFailed ty s =
     s\<lparr>documents := map (\<lambda>doc. if d_type doc = ty then doc\<lparr>d_status := StatusFailed\<rparr> else doc)
                          (documents s)\<rparr>"

definition markCompleted :: "DocType \<Rightarrow> jsval \<Rightarrow> jsval \<Rightarrow> State \<Rightarrow> State" where
  "markCompleted ty result fullContent s =
     s\<lparr>documents :=
         map (\<lambda>doc. if d_type doc = ty
                     then doc\<lparr>d_status := StatusCompleted,
                              d_keyPoints := orElse (resultField result ''keyPoints'') (JArr []),
                              d_fullContent := fullContent,
                              d_pdfUrl := resultField result ''pdfUrl''\<rparr>
                     else doc)
             (documents s)\<rparr>"

text \<open>
  \<open>generateDocument\<close>: the whole body is inside \<open>try\<close>, and every way of leaving it is a
  value here. With no user, building the request reads \<open>currentUser.id\<close> of \<open>null\<close>: that
  throws inside the \<open>try\<close> and is caught; so does reading \<open>result.error\<close> when the body
  is \<open>null\<close>. The request itself is an effect on the other side only; its outcome is the
  argument \<open>outcome\<close>.
\<close>

definition generateDocument ::
  "(jsval \<Rightarrow> int option) \<Rightarrow> string option \<Rightarrow> FetchOutcome \<Rightarrow> DocType \<Rightarrow> State \<Rightarrow> State" where
  "generateDocument toNum usr outcome ty s =
     (case usr of
        None \<Rightarrow> markFailed ty s
      | Some uid \<Rightarrow>
          (case outcome of
             FetchThrows \<Rightarrow> markFailed ty s
           | HttpResponse ok body \<Rightarrow>
               if ok then
                 (case body of
                    None \<Rightarrow> markFailed ty s
                  | Some result \<Rightarrow>
                      if result = JNull then markFailed ty s
                      else if truthy (resultField result ''error'')
                              \<or> truthy (resultField result ''userMessage'')
                      then markFailed ty s
                      else
                        (let fullContent = contentOf result
                         in if \<not> truthy fullContent \<or> belowHundred toNum (lengthOf fullContent)
                            then markFailed ty s
                            else markCompleted ty result fullContent s))
               else markFailed ty s))"

text \<open>The loader: each row of the database becomes a document of the dashboard.\<close>

definition formatDoc :: "GeneratedDocumentRow \<Rightarrow> Document" where
  "formatDoc doc =
     \<lparr>d_id = gd_id doc,
      d_type = gd_document_type doc,
      d_title = gd_document_title doc,
      d_keyPoints = (case gd_key_points doc of JArr xs \<Rightarrow> JArr xs | _ \<Rightarrow> JArr []),
      d_fullContent = (case gd_full_content doc of None \<Rightarrow> JStr [] | Some c \<Rightarrow> JStr c),
      d_pdfUrl = (case gd_pdf_url doc of
                    None \<Rightarrow> JUndefined
                  | Some u \<Rightarrow> if u = [] then JUndefined else JStr u),
      d_status = gd_generation_status doc\<rparr>"

definition loadDocumentsFromDatabase :: "string \<Rightarrow> GeneratedDocumentRow list option \<Rightarrow> State \<Rightarrow> State" where
  "loadDocumentsFromDatabase sid dbDocs s =
     (if sid = [] then s
      else case dbDocs of
             None \<Rightarrow> s
           | Some rows \<Rightarrow> s\<lparr>documents := map formatDoc rows\<rparr>)"

text \<open>
  The effect on \<open>currentSessionId\<close> and \<open>viewMode\<close>: after a render in which one of the
  two has changed, it reloads the documents if a session id is set and the view is the
  dashboard or a document. Within \<open>generateAllDocuments\<close> only the view changes, to
  the dashboard, so the effect runs there when the view was another one before and a
  session id is set.
\<close>

definition effectRuns :: "ViewMode \<Rightarrow> string \<Rightarrow> bool" where
  "effectRuns before sid = (before \<noteq> Dashboard \<and> sid \<noteq> [])"

text \<open>
  \<open>generateAllDocuments\<close> in parts. \<open>dispatchDocuments\<close> is the part up to the requests.
  \<open>settleDocuments\<close> is the state when the last of the requests has settled and made its
  update: the updates are applied in the order in which the requests settle, and the
  reload of the effect, when it runs and returns before the last request, replaces the
  list between two of them. Then \<open>generateAllDocuments\<close> loads the documents from the
  database, which replaces the list by the stored rows, and schedules the rating
  request; a reload of the effect that returns only now is written before or after that
  load, as its position says.
\<close>

definition dispatchDocuments :: "Env \<Rightarrow> State \<Rightarrow> State" where
  "dispatchDocuments env s =
     (setFlowStage Documents (s\<lparr>documents := initialDocs (clock env)\<rparr>))\<lparr>viewMode := Dashboard\<rparr>"

definition settleDocuments :: "Env \<Rightarrow> string option \<Rightarrow> State \<Rightarrow> State" where
  "settleDocuments env usr s =
     (let update = (\<lambda>st ty. generateDocument (toNumber env) usr (fetchOutcome env ty) ty st);
          k = effectPosition env
      in if effectRuns (viewMode s) (currentSessionId s) \<and> k < length (settleOrder env)
         then foldl update
                (loadDocumentsFromDatabase (currentSessionId s) (effectDocuments env)
                   (foldl update (dispatchDocuments env s) (take k (settleOrder env))))
                (drop k (settleOrder env))
         else foldl update (dispatchDocuments env s) (settleOrder env))"

definition generateAllDocuments :: "Env \<Rightarrow> string \<Rightarrow> string option \<Rightarrow> State \<Rightarrow> State" where
  "generateAllDocuments env sid usr s =
     (let k = effectPosition env; n = length (settleOrder env);
          late = effectRuns (viewMode s) (currentSessionId s);
          s1 = settleDocuments env usr s;
          s2 = (if late \<and> k = n
                then loadDocumentsFromDatabase (currentSessionId s) (effectDocuments env) s1
                else s1);
          s3 = loadDocumentsFromDatabase sid (dbDocuments env) s2;
          s4 = (if late \<and> n < k
                then loadDocumentsFromDatabase (currentSessionId s) (effectDocuments env) s3
                else s3)
      in setTimeout (RatingTimer sid usr) s4)"

definition ratingCallback :: "string \<Rightarrow> string option \<Rightarrow> State \<Rightarrow> State" where
  "ratingCallback sid usr s =
     (addMessageAndSave sid usr (aiMessage RatingRequest)
        ((setFlowStage Rating s)\<lparr>viewMode := Chat\<rparr>))\<lparr>awaitingRating := True\<rparr>"

section \<open>The handlers of the conversation\<close>

definition handleInitialChoice :: "Env \<Rightarrow> State \<Rightarrow> string \<Rightarrow> State" where
  "handleInitialChoice env s userInput =
     (let sid = currentSessionId s; usr = currentUser s; choice = trim userInput
      in if choice = ''1'' then addMessageAndSave sid usr (aiMessage IdeaTuningSoon) s
         else if choice = ''2'' then
           (let s1 = createSession (newSessionId env) s;
                s2 = (case newSessionId env of
                        None \<Rightarrow> s1
                      | Some session \<Rightarrow>
                          if session \<noteq> []
                          then s1\<lparr>currentSessionId := session, businessProfile := [],
                                  currentQuestionIndex := 0\<rparr>
                          else s1);
                s3 = setFlowStage Questioning s2
            in addMessageAndSave sid usr (aiMessage FirstQuestion) s3)
         else addMessageAndSave sid usr (aiMessage ChooseOption) s)"

text \<open>
  \<open>handleQuestionResponse\<close>. Reading \<open>QUESTIONS[currentQuestionIndex]\<close> past the end gives
  \<open>undefined\<close>, and reading its \<open>field\<close> throws before anything is changed. After the
  last answer the stage is set to generating, the processing message is added, and
  \<open>generateAllDocuments\<close> runs on that state.
\<close>

definition answerValue :: "Question \<Rightarrow> string \<Rightarrow> jsval" where
  "answerValue currentQuestion userInput =
     (if q_field currentQuestion = ''partners_info''
      then JArr [JObj [(''info'', JStr userInput)]]
      else JStr userInput)"

definition handleQuestionResponse :: "Env \<Rightarrow> State \<Rightarrow> string \<Rightarrow> Error + State" where
  "handleQuestionResponse env s userInput =
     (let sid = currentSessionId s; usr = currentUser s; idx = currentQuestionIndex s
      in if idx < length QUESTIONS then
           (let currentQuestion = QUESTIONS ! idx;
                updatedProfile = setProp (businessProfile s) (q_field currentQuestion)
                                   (answerValue currentQuestion userInput);
                s1 = s\<lparr>businessProfile := updatedProfile\<rparr>;
                s2 = updateBusinessProfile usr sid updatedProfile s1
            in if idx < length QUESTIONS - 1 then
                 Inr (addMessageAndSave sid usr (aiMessage (NextQuestion (idx + 1)))
                        (s2\<lparr>currentQuestionIndex := idx + 1\<rparr>))
               else
                 Inr (generateAllDocuments env sid usr
                        (addMessageAndSave sid usr (aiMessage Processing)
                           (setFlowStage Generating s2))))
         else Inl TypeError)"

text \<open>
  \<open>handleSendMessage\<close>: blank input is ignored; otherwise the user's message is added and
  the handler of the stage runs. The handlers read only fields that adding the message
  leaves as they were, so they are given the state with the message added.
\<close>

definition handleSendMessage :: "Env \<Rightarrow> State \<Rightarrow> string \<Rightarrow> Error + State" where
  "handleSendMessage env s inputText =
     (if trim inputText = [] then Inr s
      else
        (let s1 = addMessageAndSave (currentSessionId s) (currentUser s) (userMessage inputText) s
         in if flowStage s = Initial then Inr (handleInitialChoice env s1 inputText)
            else if flowStage s = Questioning then handleQuestionResponse env s1 inputText
            else if flowStage s = Rating then Inr (handleRatingResponse env s1 inputText)
            else Inr s1))"

text \<open>
  What happens to the component: the user sends a text, or a pending timer fires. The
  delays are not modelled; any pending timer may be the next to fire.
\<close>

datatype Event = Send string | Fire nat

fun runTimer :: "Timer \<Rightarrow> State \<Rightarrow> State" where
  "runTimer (RatingTimer sid usr) s = ratingCallback sid usr s"
| "runTimer (FeedbackTimer sid usr) s = feedbackCallback sid usr s"
| "runTimer (FinalTimer sid usr) s = finalCallback sid usr s"
| "runTimer (MentorTimer cards sid usr) s = mentorCallback cards sid usr s"

definition fireTimer :: "nat \<Rightarrow> State \<Rightarrow> State" where
  "fireTimer i s =
     (if i < length (timers s)
      then runTimer (timers s ! i) (s\<lparr>timers := take i (timers s) @ drop (Suc i) (timers s)\<rparr>)
      else s)"

fun step :: "Env \<Rightarrow> State \<Rightarrow> Event \<Rightarrow> Error + State" where
  "step env s (Send txt) = handleSendMessage env s txt"
| "step env s (Fire i) = Inr (fireTimer i s)"

fun run :: "Env \<Rightarrow> State \<Rightarrow> Event list \<Rightarrow> Error + State" where
  "run env s [] = Inr s"
| "run env s (e # es) = (case step env s e of Inl err \<Rightarrow> Inl err | Inr s' \<Rightarrow> run env s' es)"

text \<open>The state after \<open>initializeChat\<close> for a signed-in user, over given tables.\<close>

definition initialState :: "string \<Rightarrow> State" where
  "initialState uid =
     \<lparr>messages = [aiMessage Welcome],
      currentUser = Some uid,
      currentSessionId = [],
      viewMode = Chat,
      flowStage = Initial,
      stageLog = [],
      currentQuestionIndex = 0,
      businessProfile = [],
      documents = [],
      awaitingRating = False,
      ratingFeedback = [],
      chat_messages = [],
      user_sessions = [],
      business_profiles = [],
      ratings = [],
      timers = []\<rparr>"

section \<open>The stored documents\<close>

text \<open>
  The write of the HR guide function into \<open>generated_documents\<close>: the row of the
  session and type is updated if there is one, and inserted otherwise. The column
  \<open>key_points\<close> receives \<open>JSON.stringify(keyPoints)\<close>, a string; \<open>stringify\<close> stands for
  that function. \<open>pdfResult\<close> is the URL and file name of the stored PDF, if any.
\<close>

definition hrColumns ::
  "(string list \<Rightarrow> string) \<Rightarrow> string list \<Rightarrow> string \<Rightarrow> (string \<times> string) option
     \<Rightarrow> GeneratedDocumentRow \<Rightarrow> GeneratedDocumentRow" where
  "hrColumns stringify keyPoints fullContent pdfResult row =
     row\<lparr>gd_document_title := ''HR Setup Guide'',
         gd_key_points := JStr (stringify keyPoints),
         gd_full_content := Some fullContent,
         gd_pdf_url := (case pdfResult of None \<Rightarrow> None
                        | Some r \<Rightarrow> if fst r = [] then None else Some (fst r)),
         gd_pdf_file_name := (case pdfResult of None \<Rightarrow> None
                              | Some r \<Rightarrow> if snd r = [] then None else Some (snd r)),
         gd_generation_status := StatusCompleted,
         gd_service_type := ''confirmed_idea_flow''\<rparr>"

definition storeHrDocument ::
  "(string list \<Rightarrow> string) \<Rightarrow> string \<Rightarrow> string \<Rightarrow> string \<Rightarrow> string list \<Rightarrow> string
     \<Rightarrow> (string \<times> string) option \<Rightarrow> GeneratedDocumentRow list \<Rightarrow> GeneratedDocumentRow list" where
  "storeHrDocument stringify newId userId sessionId keyPoints fullContent pdfResult table =
     (case maybeSingle (filter (\<lambda>row. gd_session_id row = sessionId \<and> gd_document_type row = Hr) table) of
        Some existingDoc \<Rightarrow>
          map (\<lambda>row. if gd_id row = gd_id existingDoc
                      then hrColumns stringify keyPoints fullContent pdfResult row
                      else row) table
      | None \<Rightarrow>
          table @
            [hrColumns stringify keyPoints fullContent pdfResult
               \<lparr>gd_id = newId, gd_user_id = userId, gd_session_id = sessionId,
                gd_document_type = Hr, gd_document_title = [], gd_key_points = JNull,
                gd_full_content = None, gd_pdf_url = None, gd_pdf_file_name = None,
                gd_generation_status = StatusGenerating, gd_service_type = []\<rparr>])"

text \<open>
  Modelled from the spec: \<open>getDocumentsBySession\<close> of \<open>lib/documentService\<close> is not among
  the sources. The spec has the loader re-read the persisted generated-document records
  of the session; it is taken to return them as they are stored.
\<close>

definition getDocumentsBySession :: "GeneratedDocumentRow list \<Rightarrow> string \<Rightarrow> GeneratedDocumentRow list" where
  "getDocumentsBySession table sid = filter (\<lambda>row. gd_session_id row = sid) table"

section \<open>Concrete states and answers\<close>

text \<open>
  A session that has reached the rating stage, and an outside world in which no session
  can be created, every request and every read throws and no mentor is found. The
  handlers are run on them at concrete inputs.
\<close>

definition ratingState :: State where
  "ratingState =
     (initialState ''u1'')
       \<lparr>currentSessionId := ''s1'', flowStage := Rating, currentQuestionIndex := 5,
        awaitingRating := True, user_sessions := [(''s1'', Active)]\<rparr>"

definition silentEnv :: Env where
  "silentEnv =
     \<lparr>newSessionId = None,
      fetchOutcome = (\<lambda>ty. FetchThrows),
      settleOrder = documentTypes,
      clock = ''0'',
      dbDocuments = None,
      effectDocuments = None,
      effectPosition = 0,
      toNumber = (\<lambda>v. None),
      mentorFor = (\<lambda>service. None)\<rparr>"

text \<open>
  The outcomes that pass every check of \<open>generateDocument\<close>: an \<open>ok\<close> response with a
  body that parses and is not \<open>null\<close>, no truthy error field, and truthy content whose
  length is not below 100.
\<close>

definition wellFormed :: "(jsval \<Rightarrow> int option) \<Rightarrow> FetchOutcome \<Rightarrow> bool" where
  "wellFormed toNum outcome =
     (case outcome of
        FetchThrows \<Rightarrow> False
      | HttpResponse ok body \<Rightarrow>
          (case body of
             None \<Rightarrow> False
           | Some result \<Rightarrow>
               ok \<and> result \<noteq> JNull
                  \<and> \<not> truthy (resultField result ''error'')
                  \<and> \<not> truthy (resultField result ''userMessage'')
                  \<and> truthy (contentOf result)
                  \<and> \<not> belowHundred toNum (lengthOf (contentOf result))))"

text \<open>
  The two bodies a guide function sends: the guide with its content, and the error
  payload that comes with status 500. \<open>storedGuide\<close> is the row a guide function has
  stored when it sent the guide.
\<close>

definition guideResult :: "string \<Rightarrow> jsval" where
  "guideResult content =
     JObj [(''response'', JStr content),
           (''keyPoints'', JArr [JStr ''first point'', JStr ''second point'']),
           (''fullContent'', JStr content),
           (''pdfUrl'', JStr ''https://files/guide.pdf''),
           (''documentId'', JStr ''d1'')]"

definition errorResult :: jsval where
  "errorResult =
     JObj [(''error'', JStr ''Internal server error''),
           (''userMessage'', JStr ''Failed to generate the guide. Please try again.''),
           (''details'', JStr ''API_ERROR: 500'')]"

definition storedGuide :: "DocType \<Rightarrow> GeneratedDocumentRow" where
  "storedGuide ty =
     \<lparr>gd_id = ''d-'' @ typeName ty, gd_user_id = ''u1'', gd_session_id = ''s1'',
      gd_document_type = ty, gd_document_title = capitalize (typeName ty) @ '' Guide'',
      gd_key_points = JStr ''[\"first point\",\"second point\"]'',
      gd_full_content = Some (replicate 100 (CHR ''x'')),
      gd_pdf_url = Some ''https://files/guide.pdf'',
      gd_pdf_file_name = Some ''guide.pdf'',
      gd_generation_status = StatusCompleted,
      gd_service_type = ''confirmed_idea_flow''\<rparr>"

text \<open>
  An outside world in which the branding request fails with status 500 while the other
  three return a guide of 100 characters; the requests settle in an order of their own.
  The reload of the effect returns first, when nothing is stored yet, and the reload at
  the end finds the three stored guides.
\<close>

definition oneFlawedEnv :: Env where
  "oneFlawedEnv =
     \<lparr>newSessionId = Some ''s1'',
      fetchOutcome = (\<lambda>ty. if ty = Branding then HttpResponse False (Some errorResult)
                            else HttpResponse True (Some (guideResult (replicate 100 (CHR ''x''))))),
      settleOrder = [Hr, Registration, Branding, Compliance],
      clock = ''0'',
      dbDocuments = Some [storedGuide Registration, storedGuide Compliance, storedGuide Hr],
      effectDocuments = Some [],
      effectPosition = 0,
      toNumber = (\<lambda>v. None),
      mentorFor = (\<lambda>service. None)\<rparr>"



section \<open>How the helpers change the state\<close>

lemma addMessageAndSave_frame [simp]:
  "messages (addMessageAndSave sid usr m s) = messages s @ [m]"
  "currentUser (addMessageAndSave sid usr m s) = currentUser s"
  "currentSessionId (addMessageAndSave sid usr m s) = currentSessionId s"
  "viewMode (addMessageAndSave sid usr m s) = viewMode s"
  "flowStage (addMessageAndSave sid usr m s) = flowStage s"
  "stageLog (addMessageAndSave sid usr m s) = stageLog s"
  "currentQuestionIndex (addMessageAndSave sid usr m s) = currentQuestionIndex s"
  "businessProfile (addMessageAndSave sid usr m s) = businessProfile s"
  "documents (addMessageAndSave sid usr m s) = documents s"
  "awaitingRating (addMessageAndSave sid usr m s) = awaitingRating s"
  "ratingFeedback (addMessageAndSave sid usr m s) = ratingFeedback s"
  "user_sessions (addMessageAndSave sid usr m s) = user_sessions s"
  "business_profiles (addMessageAndSave sid usr m s) = business_profiles s"
  "ratings (addMessageAndSave sid usr m s) = ratings s"
  "timers (addMessageAndSave sid usr m s) = timers s"
  by (simp_all add: addMessageAndSave_def saveChatMessage_def Let_def split: option.splits)

lemma setTimeout_frame [simp]:
  "messages (setTimeout t s) = messages s"
  "currentUser (setTimeout t s) = currentUser s"
  "currentSessionId (setTimeout t s) = currentSessionId s"
  "viewMode (setTimeout t s) = viewMode s"
  "flowStage (setTimeout t s) = flowStage s"
  "stageLog (setTimeout t s) = stageLog s"
  "currentQuestionIndex (setTimeout t s) = currentQuestionIndex s"
  "businessProfile (setTimeout t s) = businessProfile s"
  "documents (setTimeout t s) = documents s"
  "awaitingRating (setTimeout t s) = awaitingRating s"
  "ratingFeedback (setTimeout t s) = ratingFeedback s"
  "chat_messages (setTimeout t s) = chat_messages s"
  "user_sessions (setTimeout t s) = user_sessions s"
  "business_profiles (setTimeout t s) = business_profiles s"
  "ratings (setTimeout t s) = ratings s"
  "timers (setTimeout t s) = timers s @ [t]"
  by (simp_all add: setTimeout_def)

lemma submitRating_frame [simp]:
  "messages (submitRating r s) = messages s"
  "currentUser (submitRating r s) = currentUser s"
  "currentSessionId (submitRating r s) = currentSessionId s"
  "viewMode (submitRating r s) = viewMode s"
  "flowStage (submitRating r s) = flowStage s"
  "stageLog (submitRating r s) = stageLog s"
  "currentQuestionIndex (submitRating r s) = currentQuestionIndex s"
  "businessProfile (submitRating r s) = businessProfile s"
  "documents (submitRating r s) = documents s"
  "awaitingRating (submitRating r s) = awaitingRating s"
  "ratingFeedback (submitRating r s) = ratingFeedback s"
  "chat_messages (submitRating r s) = chat_messages s"
  "user_sessions (submitRating r s) = user_sessions s"
  "business_profiles (submitRating r s) = business_profiles s"
  "ratings (submitRating r s) = ratings s @ [r]"
  "timers (submitRating r s) = timers s"
  by (simp_all add: submitRating_def)

lemma updateSessionStatus_frame [simp]:
  "messages (updateSessionStatus sid st s) = messages s"
  "currentUser (updateSessionStatus sid st s) = currentUser s"
  "currentSessionId (updateSessionStatus sid st s) = currentSessionId s"
  "flowStage (updateSessionStatus sid st s) = flowStage s"
  "stageLog (updateSessionStatus sid st s) = stageLog s"
  "awaitingRating (updateSessionStatus sid st s) = awaitingRating s"
  "ratingFeedback (updateSessionStatus sid st s) = ratingFeedback s"
  "ratings (updateSessionStatus sid st s) = ratings s"
  "timers (updateSessionStatus sid st s) = timers s"
  "user_sessions (updateSessionStatus sid st s) =
     map (\<lambda>row. if fst row = sid then (fst row, st) else row) (user_sessions s)"
  by (simp_all add: updateSessionStatus_def)

lemma updateBusinessProfile_frame [simp]:
  "messages (updateBusinessProfile usr sid p s) = messages s"
  "currentUser (updateBusinessProfile usr sid p s) = currentUser s"
  "currentSessionId (updateBusinessProfile usr sid p s) = currentSessionId s"
  "viewMode (updateBusinessProfile usr sid p s) = viewMode s"
  "flowStage (updateBusinessProfile usr sid p s) = flowStage s"
  "stageLog (updateBusinessProfile usr sid p s) = stageLog s"
  "currentQuestionIndex (updateBusinessProfile usr sid p s) = currentQuestionIndex s"
  "businessProfile (updateBusinessProfile usr sid p s) = businessProfile s"
  "documents (updateBusinessProfile usr sid p s) = documents s"
  "awaitingRating (updateBusinessProfile usr sid p s) = awaitingRating s"
  "ratingFeedback (updateBusinessProfile usr sid p s) = ratingFeedback s"
  "ratings (updateBusinessProfile usr sid p s) = ratings s"
  "timers (updateBusinessProfile usr sid p s) = timers s"
  by (simp_all add: updateBusinessProfile_def Let_def split: option.splits)

lemma createSession_frame [simp]:
  "messages (createSession r s) = messages s"
  "currentUser (createSession r s) = currentUser s"
  "currentSessionId (createSession r s) = currentSessionId s"
  "flowStage (createSession r s) = flowStage s"
  "stageLog (createSession r s) = stageLog s"
  "viewMode (createSession r s) = viewMode s"
  "currentQuestionIndex (createSession r s) = currentQuestionIndex s"
  "businessProfile (createSession r s) = businessProfile s"
  by (simp_all add: createSession_def split: option.splits)

lemma setFlowStage_frame [simp]:
  "flowStage (setFlowStage stage s) = stage"
  "stageLog (setFlowStage stage s) = stageLog s @ [stage]"
  "messages (setFlowStage stage s) = messages s"
  "currentUser (setFlowStage stage s) = currentUser s"
  "currentSessionId (setFlowStage stage s) = currentSessionId s"
  "viewMode (setFlowStage stage s) = viewMode s"
  "currentQuestionIndex (setFlowStage stage s) = currentQuestionIndex s"
  "businessProfile (setFlowStage stage s) = businessProfile s"
  "documents (setFlowStage stage s) = documents s"
  "awaitingRating (setFlowStage stage s) = awaitingRating s"
  "ratingFeedback (setFlowStage stage s) = ratingFeedback s"
  "chat_messages (setFlowStage stage s) = chat_messages s"
  "user_sessions (setFlowStage stage s) = user_sessions s"
  "business_profiles (setFlowStage stage s) = business_profiles s"
  "ratings (setFlowStage stage s) = ratings s"
  "timers (setFlowStage stage s) = timers s"
  by (simp_all add: setFlowStage_def)

lemma markFailed_frame [simp]:
  "flowStage (markFailed ty s) = flowStage s"
  "stageLog (markFailed ty s) = stageLog s"
  "businessProfile (markFailed ty s) = businessProfile s"
  "currentUser (markFailed ty s) = currentUser s"
  "currentSessionId (markFailed ty s) = currentSessionId s"
  "timers (markFailed ty s) = timers s"
  by (simp_all add: markFailed_def)

lemma markCompleted_frame [simp]:
  "flowStage (markCompleted ty result fullContent s) = flowStage s"
  "stageLog (markCompleted ty result fullContent s) = stageLog s"
  "businessProfile (markCompleted ty result fullContent s) = businessProfile s"
  "currentUser (markCompleted ty result fullContent s) = currentUser s"
  "currentSessionId (markCompleted ty result fullContent s) = currentSessionId s"
  "timers (markCompleted ty result fullContent s) = timers s"
  by (simp_all add: markCompleted_def)

lemma generateDocument_shape:
  "generateDocument toNum usr outcome ty s = markFailed ty s
   \<or> (\<exists>result. generateDocument toNum usr outcome ty s =
                  markCompleted ty result (contentOf result) s)"
proof (cases usr)
  case None
  then show ?thesis by (simp add: generateDocument_def)
next
  case (Some uid)
  show ?thesis
  proof (cases outcome)
    case FetchThrows
    with Some show ?thesis by (simp add: generateDocument_def)
  next
    case (HttpResponse ok body)
    show ?thesis
    proof (cases body)
      case None
      with Some HttpResponse show ?thesis by (simp add: generateDocument_def)
    next
      case (Some result)
      with \<open>usr = Some uid\<close> HttpResponse show ?thesis
        by (simp add: generateDocument_def Let_def) blast
    qed
  qed
qed

lemma generateDocument_frame [simp]:
  "flowStage (generateDocument toNum usr outcome ty s) = flowStage s"
  "stageLog (generateDocument toNum usr outcome ty s) = stageLog s"
  "businessProfile (generateDocument toNum usr outcome ty s) = businessProfile s"
  "currentUser (generateDocument toNum usr outcome ty s) = currentUser s"
  "currentSessionId (generateDocument toNum usr outcome ty s) = currentSessionId s"
  "timers (generateDocument toNum usr outcome ty s) = timers s"
  using generateDocument_shape [of toNum usr outcome ty s] by auto

lemma settle_fold_frame [simp]:
  "flowStage (foldl (\<lambda>st ty. generateDocument toNum usr (f ty) ty st) s tys) = flowStage s"
  "stageLog (foldl (\<lambda>st ty. generateDocument toNum usr (f ty) ty st) s tys) = stageLog s"
  "businessProfile (foldl (\<lambda>st ty. generateDocument toNum usr (f ty) ty st) s tys) = businessProfile s"
  by (induction tys arbitrary: s) simp_all

lemma loadDocumentsFromDatabase_frame [simp]:
  "flowStage (loadDocumentsFromDatabase sid rows s) = flowStage s"
  "stageLog (loadDocumentsFromDatabase sid rows s) = stageLog s"
  "businessProfile (loadDocumentsFromDatabase sid rows s) = businessProfile s"
  by (simp_all add: loadDocumentsFromDatabase_def split: option.splits)

lemma dispatchDocuments_frame [simp]:
  "flowStage (dispatchDocuments env s) = Documents"
  "stageLog (dispatchDocuments env s) = stageLog s @ [Documents]"
  "businessProfile (dispatchDocuments env s) = businessProfile s"
  "documents (dispatchDocuments env s) = initialDocs (clock env)"
  by (simp_all add: dispatchDocuments_def)

lemma settleDocuments_frame [simp]:
  "flowStage (settleDocuments env usr s) = Documents"
  "stageLog (settleDocuments env usr s) = stageLog s @ [Documents]"
  "businessProfile (settleDocuments env usr s) = businessProfile s"
  by (simp_all add: settleDocuments_def Let_def)

lemma generateAllDocuments_frame [simp]:
  "flowStage (generateAllDocuments env sid usr s) = Documents"
  "stageLog (generateAllDocuments env sid usr s) = stageLog s @ [Documents]"
  "businessProfile (generateAllDocuments env sid usr s) = businessProfile s"
  by (simp_all add: generateAllDocuments_def Let_def)

section \<open>The rating stage\<close>

lemma parseInt_7: "acceptedRating (parseInt (trim ''7'')) = None"
  by (simp add: acceptedRating_def parseInt_def trim_def isWhiteSpace_def digitValue_def Let_def)

lemma parseInt_3: "acceptedRating (parseInt (trim ''3'')) = Some 3"
  by (simp add: acceptedRating_def parseInt_def trim_def isWhiteSpace_def digitValue_def Let_def)

lemma parseInt_5: "acceptedRating (parseInt (trim ''5'')) = Some 5"
  by (simp add: acceptedRating_def parseInt_def trim_def isWhiteSpace_def digitValue_def Let_def)

lemma parseInt_words: "acceptedRating (parseInt (trim ''too slow'')) = None"
  by (simp add: acceptedRating_def parseInt_def trim_def isWhiteSpace_def digitValue_def Let_def)

lemma trim_examples:
  "trim ''7'' \<noteq> []" "trim ''3'' \<noteq> []" "trim ''5'' \<noteq> []" "trim ''too slow'' \<noteq> []"
  by (simp_all add: trim_def isWhiteSpace_def)

lemma ratingState_fields [simp]:
  "flowStage ratingState = Rating"
  "ratingFeedback ratingState = []"
  "currentSessionId ratingState = ''s1''"
  "currentUser ratingState = Some ''u1''"
  "ratings ratingState = []"
  "timers ratingState = []"
  "user_sessions ratingState = [(''s1'', Active)]"
  "awaitingRating ratingState = True"
  "messages ratingState = [aiMessage Welcome]"
  by (simp_all add: ratingState_def initialState_def)

lemma handleRatingResponse_accepted:
  assumes "acceptedRating (parseInt (trim userInput)) = Some rating"
  shows "handleRatingResponse env s userInput =
         setTimeout
           (if rating \<le> 3 then FeedbackTimer (currentSessionId s) (currentUser s)
            else FinalTimer (currentSessionId s) (currentUser s))
           (addMessageAndSave (currentSessionId s) (currentUser s) (aiMessage (ThankYouRating rating))
              (submitRating
                 \<lparr>rt_user_id = currentUser s, rt_session_id = currentSessionId s,
                  rt_service_type = ''confirmed_idea_flow'', rt_rating = rating\<rparr>
                 (s\<lparr>awaitingRating := False\<rparr>)))"
  using assms by (simp add: handleRatingResponse_def Let_def)

lemma handleRatingResponse_feedback:
  assumes "acceptedRating (parseInt (trim userInput)) = None"
    and "ratingFeedback s = ''awaiting''"
  shows "handleRatingResponse env s userInput =
         (let s2 = addMessageAndSave (currentSessionId s) (currentUser s) (aiMessage FeedbackThankYou)
                     (s\<lparr>ratingFeedback := []\<rparr>);
              cards = mentorCards (map (mentorFor env) serviceTypes)
          in if length cards > 0
             then setTimeout (MentorTimer cards (currentSessionId s) (currentUser s)) s2
             else s2)"
  using assms by (simp add: handleRatingResponse_def Let_def)

lemma handleRatingResponse_invalid:
  assumes "acceptedRating (parseInt (trim userInput)) = None"
    and "ratingFeedback s \<noteq> ''awaiting''"
  shows "handleRatingResponse env s userInput =
         addMessageAndSave (currentSessionId s) (currentUser s) (aiMessage InvalidRating) s"
  using assms by (simp add: handleRatingResponse_def)

lemma handleSendMessage_rating:
  assumes "flowStage s = Rating" and "trim inputText \<noteq> []"
  shows "handleSendMessage env s inputText =
         Inr (handleRatingResponse env
                (addMessageAndSave (currentSessionId s) (currentUser s) (userMessage inputText) s)
                inputText)"
  using assms by (simp add: handleSendMessage_def Let_def)

lemma fireTimer_last:
  assumes "timers s = ts @ [t]"
  shows "fireTimer (length ts) s = runTimer t (s\<lparr>timers := ts\<rparr>)"
  using assms by (simp add: fireTimer_def)
lemma leadingDigits_digit:
  assumes "c \<in> set ''12345''" and "leadingDigits 10 rest = []"
  shows "leadingDigits 10 (c # rest) = [nat (int (of_char c) - 48)]"
  using assms by (auto simp add: digitValue_def)

lemma digit_props:
  assumes "c \<in> set ''12345''"
  shows "\<not> isWhiteSpace c" "c \<noteq> CHR ''-''" "c \<noteq> CHR ''+''" "c \<noteq> CHR ''0''"
    "1 \<le> int (of_char c) - 48" "int (of_char c) - 48 \<le> 5"
  using assms by (auto simp add: isWhiteSpace_def)

lemma parseInt_leading_digit:
  assumes "c \<in> set ''12345''" and "leadingDigits 10 rest = []"
  shows "acceptedRating (parseInt (c # rest)) = Some (int (of_char c) - 48)"
proof -
  have "parseInt (c # rest) = Some (int (of_char c) - 48)"
    using digit_props [OF assms(1)] leadingDigits_digit [OF assms]
    by (simp add: parseInt_def Let_def)
  then show ?thesis using digit_props [OF assms(1)] by (simp add: acceptedRating_def)
qed

text \<open>
  C9. In the rating stage with no feedback pending, an input that does not parse to an
  integer from 1 to 5 (such as "7") only adds the validation error message: the stage
  stays rating, no rating is stored, the feedback-pending sub-state is not entered and
  no timer is scheduled.
\<close>

theorem invalid_rating_only_reprompts:
  assumes "flowStage s = Rating"
    and "ratingFeedback s \<noteq> ''awaiting''"
    and "acceptedRating (parseInt (trim userInput)) = None"
  shows "messages (handleRatingResponse env s userInput) = messages s @ [aiMessage InvalidRating]
       \<and> flowStage (handleRatingResponse env s userInput) = Rating
       \<and> ratings (handleRatingResponse env s userInput) = ratings s
       \<and> ratingFeedback (handleRatingResponse env s userInput) = ratingFeedback s
       \<and> awaitingRating (handleRatingResponse env s userInput) = awaitingRating s
       \<and> timers (handleRatingResponse env s userInput) = timers s
       \<and> user_sessions (handleRatingResponse env s userInput) = user_sessions s"
  using assms by (simp add: handleRatingResponse_invalid)

theorem invalid_rating_only_reprompts_witness:
  "flowStage ratingState = Rating
   \<and> ratingFeedback ratingState \<noteq> ''awaiting''
   \<and> acceptedRating (parseInt (trim ''7'')) = None
   \<and> messages (handleRatingResponse silentEnv ratingState ''7'') = [aiMessage Welcome, aiMessage InvalidRating]
   \<and> flowStage (handleRatingResponse silentEnv ratingState ''7'') = Rating
   \<and> ratings (handleRatingResponse silentEnv ratingState ''7'') = []
   \<and> ratingFeedback (handleRatingResponse silentEnv ratingState ''7'') = []
   \<and> timers (handleRatingResponse silentEnv ratingState ''7'') = []"
  using invalid_rating_only_reprompts [of ratingState "''7''" silentEnv] parseInt_7
  by simp

text \<open>
  C3. In the rating stage with feedback pending, an input that does not parse to an
  integer from 1 to 5 (an out-of-range number such as "7" included) takes the feedback
  branch: the sub-state is cleared and the thanks for the feedback are the one message
  added; no rating is stored and no validation error is shown.
\<close>

theorem pending_feedback_consumes_input:
  assumes "flowStage s = Rating"
    and "ratingFeedback s = ''awaiting''"
    and "acceptedRating (parseInt (trim userInput)) = None"
  shows "ratingFeedback (handleRatingResponse env s userInput) = []
       \<and> messages (handleRatingResponse env s userInput) = messages s @ [aiMessage FeedbackThankYou]
       \<and> ratings (handleRatingResponse env s userInput) = ratings s
       \<and> awaitingRating (handleRatingResponse env s userInput) = awaitingRating s
       \<and> flowStage (handleRatingResponse env s userInput) = Rating"
  using assms by (simp add: handleRatingResponse_feedback Let_def)

theorem pending_feedback_consumes_input_witness:
  "flowStage (ratingState\<lparr>ratingFeedback := ''awaiting''\<rparr>) = Rating
   \<and> ratingFeedback (ratingState\<lparr>ratingFeedback := ''awaiting''\<rparr>) = ''awaiting''
   \<and> acceptedRating (parseInt (trim ''7'')) = None
   \<and> ratingFeedback (handleRatingResponse silentEnv (ratingState\<lparr>ratingFeedback := ''awaiting''\<rparr>) ''7'') = []
   \<and> messages (handleRatingResponse silentEnv (ratingState\<lparr>ratingFeedback := ''awaiting''\<rparr>) ''7'')
       = [aiMessage Welcome, aiMessage FeedbackThankYou]
   \<and> ratings (handleRatingResponse silentEnv (ratingState\<lparr>ratingFeedback := ''awaiting''\<rparr>) ''7'') = []"
  using pending_feedback_consumes_input
          [of "ratingState\<lparr>ratingFeedback := ''awaiting''\<rparr>" "''7''" silentEnv] parseInt_7
  by simp

text \<open>
  C10. Rating parsing is lenient. Whenever \<open>parseInt\<close> of the trimmed input is an integer
  from 1 to 5, the input is taken as a rating: the rating is submitted and thanked for,
  and the feedback-pending sub-state is left as it was, pending or not. Only the other
  inputs reach the feedback branch (when feedback is pending) or the validation error.
  A trimmed text that starts with one of the digits 1 to 5 followed by no further digit
  parses to that digit, whatever comes after, as "3 stars, it was bad" does.
\<close>

theorem rating_parse_is_lenient:
  "(\<forall>rating. acceptedRating (parseInt (trim userInput)) = Some rating \<longrightarrow>
      ratings (handleRatingResponse env s userInput) =
        ratings s @ [\<lparr>rt_user_id = currentUser s, rt_session_id = currentSessionId s,
                      rt_service_type = ''confirmed_idea_flow'', rt_rating = rating\<rparr>]
      \<and> messages (handleRatingResponse env s userInput) = messages s @ [aiMessage (ThankYouRating rating)]
      \<and> ratingFeedback (handleRatingResponse env s userInput) = ratingFeedback s)
   \<and> (acceptedRating (parseInt (trim userInput)) = None \<longrightarrow>
      ratings (handleRatingResponse env s userInput) = ratings s
      \<and> messages (handleRatingResponse env s userInput) =
          messages s @ [aiMessage (if ratingFeedback s = ''awaiting'' then FeedbackThankYou else InvalidRating)])
   \<and> (\<forall>c rest. trim userInput = c # rest \<and> c \<in> set ''12345'' \<and> leadingDigits 10 rest = [] \<longrightarrow>
      acceptedRating (parseInt (trim userInput)) = Some (int (of_char c) - 48))
   \<and> acceptedRating (parseInt (trim ''3 stars, it was bad'')) = Some 3"
proof (intro conjI allI impI)
  fix rating
  assume a: "acceptedRating (parseInt (trim userInput)) = Some rating"
  show "ratings (handleRatingResponse env s userInput) =
        ratings s @ [\<lparr>rt_user_id = currentUser s, rt_session_id = currentSessionId s,
                      rt_service_type = ''confirmed_idea_flow'', rt_rating = rating\<rparr>]"
    by (simp add: handleRatingResponse_accepted [OF a])
  show "messages (handleRatingResponse env s userInput) = messages s @ [aiMessage (ThankYouRating rating)]"
    by (simp add: handleRatingResponse_accepted [OF a])
  show "ratingFeedback (handleRatingResponse env s userInput) = ratingFeedback s"
    by (simp add: handleRatingResponse_accepted [OF a])
next
  assume a: "acceptedRating (parseInt (trim userInput)) = None"
  show "ratings (handleRatingResponse env s userInput) = ratings s"
    using a by (cases "ratingFeedback s = ''awaiting''")
      (simp_all add: handleRatingResponse_feedback handleRatingResponse_invalid Let_def)
  show "messages (handleRatingResponse env s userInput) =
        messages s @ [aiMessage (if ratingFeedback s = ''awaiting'' then FeedbackThankYou else InvalidRating)]"
    using a by (cases "ratingFeedback s = ''awaiting''")
      (simp_all add: handleRatingResponse_feedback handleRatingResponse_invalid Let_def)
next
  fix c rest
  assume "trim userInput = c # rest \<and> c \<in> set ''12345'' \<and> leadingDigits 10 rest = []"
  then show "acceptedRating (parseInt (trim userInput)) = Some (int (of_char c) - 48)"
    using parseInt_leading_digit [of c rest] by simp
next
  show "acceptedRating (parseInt (trim ''3 stars, it was bad'')) = Some 3"
    by (simp add: acceptedRating_def parseInt_def trim_def isWhiteSpace_def digitValue_def Let_def)
qed

theorem rating_parse_is_lenient_witness:
  "acceptedRating (parseInt (trim ''3 stars, it was bad'')) = Some 3
   \<and> map rt_rating (ratings (handleRatingResponse silentEnv (ratingState\<lparr>ratingFeedback := ''awaiting''\<rparr>)
                               ''3 stars, it was bad'')) = [3]
   \<and> ratingFeedback (handleRatingResponse silentEnv (ratingState\<lparr>ratingFeedback := ''awaiting''\<rparr>)
                       ''3 stars, it was bad'') = ''awaiting''
   \<and> messages (handleRatingResponse silentEnv (ratingState\<lparr>ratingFeedback := ''awaiting''\<rparr>)
                 ''3 stars, it was bad'') = [aiMessage Welcome, aiMessage (ThankYouRating 3)]"
  using rating_parse_is_lenient
          [of "''3 stars, it was bad''" silentEnv "ratingState\<lparr>ratingFeedback := ''awaiting''\<rparr>"]
  by simp

text \<open>
  C1, as it stands, fails: the stage stays rating after a rating was accepted, and the
  next input that parses to 1 to 5 is submitted as a rating as well. After "3", the
  feedback request and "5", two ratings are stored, feedback is pending and the closure
  of the high-rating path is scheduled.
\<close>

theorem second_rating_is_recorded:
  "(case run silentEnv ratingState [Send ''3'', Fire 0, Send ''5''] of
      Inl err \<Rightarrow> None
    | Inr s \<Rightarrow> Some (map rt_rating (ratings s), flowStage s, ratingFeedback s, timers s))
   = Some ([3, 5], Rating, ''awaiting'', [FinalTimer ''s1'' (Some ''u1'')])"
  by (simp add: handleSendMessage_rating trim_examples handleRatingResponse_accepted
        parseInt_3 parseInt_5 fireTimer_def feedbackCallback_def)

text \<open>
  C1, amended. In the rating stage every input that parses to an integer from 1 to 5 is
  submitted as a rating, whatever was submitted before, and the stage stays rating. Each
  accepted rating schedules exactly one of two callbacks: for a rating of at most 3 the
  feedback request, which enters the feedback-pending sub-state; for a rating of at
  least 4 the closing message, which marks the session completed.
\<close>

theorem accepted_rating_takes_one_branch:
  assumes "flowStage s = Rating"
    and "acceptedRating (parseInt (trim userInput)) = Some rating"
  shows "1 \<le> rating \<and> rating \<le> 5
       \<and> ratings (handleRatingResponse env s userInput) =
           ratings s @ [\<lparr>rt_user_id = currentUser s, rt_session_id = currentSessionId s,
                         rt_service_type = ''confirmed_idea_flow'', rt_rating = rating\<rparr>]
       \<and> flowStage (handleRatingResponse env s userInput) = Rating
       \<and> timers (handleRatingResponse env s userInput) =
           timers s @ [if rating \<le> 3 then FeedbackTimer (currentSessionId s) (currentUser s)
                       else FinalTimer (currentSessionId s) (currentUser s)]
       \<and> ratingFeedback (runTimer (FeedbackTimer (currentSessionId s) (currentUser s)) x) = ''awaiting''
       \<and> messages (runTimer (FeedbackTimer (currentSessionId s) (currentUser s)) x) =
           messages x @ [aiMessage FeedbackRequest]
       \<and> messages (runTimer (FinalTimer (currentSessionId s) (currentUser s)) x) =
           messages x @ [aiMessage FinalMessage]
       \<and> (currentSessionId s \<noteq> [] \<longrightarrow>
            user_sessions (runTimer (FinalTimer (currentSessionId s) (currentUser s)) x) =
              map (\<lambda>row. if fst row = currentSessionId s then (fst row, SessionCompleted) else row)
                  (user_sessions x))"
proof -
  from assms(2) have "1 \<le> rating \<and> rating \<le> 5"
    by (auto simp add: acceptedRating_def split: option.splits if_splits)
  moreover have "ratingFeedback (feedbackCallback sid usr x) = ''awaiting''" for sid usr
    by (simp add: feedbackCallback_def)
  moreover have "messages (feedbackCallback sid usr x) = messages x @ [aiMessage FeedbackRequest]" for sid usr
    by (simp add: feedbackCallback_def)
  moreover have "messages (finalCallback sid usr x) = messages x @ [aiMessage FinalMessage]" for sid usr
    by (simp add: finalCallback_def Let_def)
  moreover have "sid \<noteq> [] \<Longrightarrow> user_sessions (finalCallback sid usr x) =
        map (\<lambda>row. if fst row = sid then (fst row, SessionCompleted) else row) (user_sessions x)" for sid usr
    by (simp add: finalCallback_def Let_def)
  ultimately show ?thesis
    using assms(1) by (simp add: handleRatingResponse_accepted [OF assms(2)])
qed

theorem accepted_rating_takes_one_branch_witness:
  "flowStage ratingState = Rating
   \<and> acceptedRating (parseInt (trim ''5'')) = Some 5
   \<and> map rt_rating (ratings (handleRatingResponse silentEnv ratingState ''5'')) = [5]
   \<and> timers (handleRatingResponse silentEnv ratingState ''5'') = [FinalTimer ''s1'' (Some ''u1'')]
   \<and> user_sessions (runTimer (FinalTimer ''s1'' (Some ''u1''))
                       (handleRatingResponse silentEnv ratingState ''5'')) = [(''s1'', SessionCompleted)]"
  using accepted_rating_takes_one_branch
          [of ratingState "''5''" 5 silentEnv "handleRatingResponse silentEnv ratingState ''5''"]
        parseInt_5
  by (simp add: handleRatingResponse_accepted)

text \<open>
  C7 fails where a lookup finds no mentor. The label of a card is taken at the card's
  position in the filtered list, so every mentor after a missing one carries the service
  of an earlier lookup: with no registration mentor, the branding mentor is shown as the
  registration expert, the compliance mentor as the branding expert, and the HR mentor
  as the compliance expert. Here each mentor is named after the service it was found for.
\<close>

theorem mentor_cards_shift_after_null:
  "map (\<lambda>card. (c_name card, c_service card))
       (mentorCards (map (\<lambda>service. if service = ''registration'' then None
                                      else Some \<lparr>name = service, email = e, phone = p,
                                                  specialization = sp\<rparr>)
                         serviceTypes))
   = [(''branding'', ''Registration''), (''compliance'', ''Branding''), (''hr'', ''Compliance'')]"
  by (simp add: mentorCards_def mentorCard_def serviceTypes_def capitalize_def toUpperCase_char_def upt_rec)

text \<open>
  C8 fails when none of the four lookups finds a mentor: the completion of the session
  sits in the callback that presents the mentor cards, and that callback is scheduled
  only when there is a card. The feedback is consumed, the sub-state is cleared, nothing
  is scheduled and the session stays active.
\<close>

theorem feedback_without_mentors_leaves_session_active:
  "(case run silentEnv (ratingState\<lparr>ratingFeedback := ''awaiting''\<rparr>) [Send ''too slow''] of
      Inl err \<Rightarrow> None
    | Inr s \<Rightarrow> Some (ratingFeedback s, timers s, user_sessions s))
   = Some ([], [], [(''s1'', Active)])"
  by (simp add: handleSendMessage_rating trim_examples handleRatingResponse_feedback parseInt_words
        mentorCards_def silentEnv_def serviceTypes_def)

section \<open>The initial stage\<close>

text \<open>
  Whatever the user sends and whichever timers fire, a state of the initial stage that the
  component reaches from its start has an empty profile and question index 0: the stage
  is only ever left, never entered again.
\<close>

lemma handleRatingResponse_frame:
  "flowStage (handleRatingResponse env s u) = flowStage s"
  "businessProfile (handleRatingResponse env s u) = businessProfile s"
  "currentQuestionIndex (handleRatingResponse env s u) = currentQuestionIndex s"
  by (simp_all add: handleRatingResponse_def Let_def split: option.splits)

lemma handleInitialChoice_stage:
  "flowStage (handleInitialChoice env s u) = Questioning
   \<or> (flowStage (handleInitialChoice env s u) = flowStage s
      \<and> businessProfile (handleInitialChoice env s u) = businessProfile s
      \<and> currentQuestionIndex (handleInitialChoice env s u) = currentQuestionIndex s)"
  by (simp add: handleInitialChoice_def Let_def split: option.splits)

lemma handleQuestionResponse_stage:
  assumes "handleQuestionResponse env s u = Inr s'" and "flowStage s = Questioning"
  shows "flowStage s' \<noteq> Initial"
  using assms by (auto simp add: handleQuestionResponse_def Let_def split: if_splits)

lemma runTimer_stage:
  "flowStage (runTimer t s) = Rating
   \<or> (flowStage (runTimer t s) = flowStage s
      \<and> businessProfile (runTimer t s) = businessProfile s
      \<and> currentQuestionIndex (runTimer t s) = currentQuestionIndex s)"
proof (cases t)
  case (RatingTimer sid usr)
  then show ?thesis by (simp add: ratingCallback_def)
next
  case (FeedbackTimer sid usr)
  then show ?thesis by (simp add: feedbackCallback_def)
next
  case (FinalTimer sid usr)
  then show ?thesis by (simp add: finalCallback_def updateSessionStatus_def Let_def)
next
  case (MentorTimer cards sid usr)
  then show ?thesis by (simp add: mentorCallback_def updateSessionStatus_def Let_def)
qed

lemma step_keeps_initial:
  assumes "step env s e = Inr s'"
    and "flowStage s = Initial \<longrightarrow> businessProfile s = [] \<and> currentQuestionIndex s = 0"
    and "flowStage s' = Initial"
  shows "businessProfile s' = [] \<and> currentQuestionIndex s' = 0"
proof (cases e)
  case (Send inp)
  let ?s1 = "addMessageAndSave (currentSessionId s) (currentUser s) (userMessage inp) s"
  show ?thesis
  proof (cases "trim inp = []")
    case True
    with assms Send show ?thesis by (simp add: handleSendMessage_def)
  next
    case False
    consider "flowStage s = Initial" | "flowStage s = Questioning" | "flowStage s = Rating"
      | "flowStage s = Generating \<or> flowStage s = Documents"
      by (cases "flowStage s") simp_all
    then show ?thesis
    proof cases
      case 1
      with assms(1) Send False have "s' = handleInitialChoice env ?s1 inp"
        by (simp add: handleSendMessage_def Let_def)
      with handleInitialChoice_stage [of env ?s1 inp] assms(2,3) 1 show ?thesis by auto
    next
      case 2
      with assms(1) Send False have "handleQuestionResponse env ?s1 inp = Inr s'"
        by (simp add: handleSendMessage_def Let_def)
      with 2 have "flowStage s' \<noteq> Initial"
        by (intro handleQuestionResponse_stage [of env ?s1 inp s']) simp_all
      with assms(3) show ?thesis by simp
    next
      case 3
      with assms(1) Send False have "s' = handleRatingResponse env ?s1 inp"
        by (simp add: handleSendMessage_def Let_def)
      with 3 assms(3) show ?thesis by (simp add: handleRatingResponse_frame)
    next
      case 4
      with assms(1) Send False have "s' = ?s1"
        by (auto simp add: handleSendMessage_def Let_def)
      with 4 assms(3) show ?thesis by auto
    qed
  qed
next
  case (Fire i)
  show ?thesis
  proof (cases "i < length (timers s)")
    case True
    let ?s0 = "s\<lparr>timers := take i (timers s) @ drop (Suc i) (timers s)\<rparr>"
    from assms(1) Fire True have "s' = runTimer (timers s ! i) ?s0"
      by (simp add: fireTimer_def)
    with runTimer_stage [of "timers s ! i" ?s0] assms(2,3) show ?thesis by auto
  next
    case False
    with assms Fire show ?thesis by (simp add: fireTimer_def)
  qed
qed

lemma run_keeps_initial:
  assumes "run env s events = Inr s'"
    and "flowStage s = Initial \<longrightarrow> businessProfile s = [] \<and> currentQuestionIndex s = 0"
    and "flowStage s' = Initial"
  shows "businessProfile s' = [] \<and> currentQuestionIndex s' = 0"
  using assms
proof (induction events arbitrary: s)
  case Nil
  then show ?case by simp
next
  case (Cons e events)
  from Cons.prems(1) obtain s1 where s1: "step env s e = Inr s1" and rest: "run env s1 events = Inr s'"
    by (auto split: sum.splits)
  have "flowStage s1 = Initial \<longrightarrow> businessProfile s1 = [] \<and> currentQuestionIndex s1 = 0"
    using step_keeps_initial [OF s1 Cons.prems(2)] by blast
  from Cons.IH [OF rest this Cons.prems(3)] show ?case .
qed

lemma initial_stage_of_session:
  assumes "run env (initialState uid) events = Inr s" and "flowStage s = Initial"
  shows "businessProfile s = [] \<and> currentQuestionIndex s = 0"
  using run_keeps_initial [OF assms(1) _ assms(2)] by (simp add: initialState_def)

section \<open>The questionnaire\<close>

lemma QUESTIONS_length: "length QUESTIONS = 6"
  by (simp add: QUESTIONS_def)

lemma QUESTIONS_fields:
  "q_field (QUESTIONS ! 0) = ''business_name''"
  "q_field (QUESTIONS ! Suc 0) = ''company_description''"
  "q_field (QUESTIONS ! 2) = ''location''"
  "q_field (QUESTIONS ! 3) = ''partners_info''"
  "q_field (QUESTIONS ! 4) = ''color_preference''"
  "q_field (QUESTIONS ! 5) = ''style_preference''"
  by (simp_all add: QUESTIONS_def)

lemma handleSendMessage_confirmed:
  assumes "flowStage s = Initial" and "businessProfile s = []" and "currentQuestionIndex s = 0"
    and "trim choice = ''2''"
  shows "\<exists>q. handleSendMessage env s choice = Inr q \<and> flowStage q = Questioning
             \<and> currentQuestionIndex q = 0 \<and> businessProfile q = []
             \<and> stageLog q = stageLog s @ [Questioning]"
  using assms
  by (simp add: handleSendMessage_def handleInitialChoice_def Let_def split: option.splits)

lemma handleSendMessage_answer:
  assumes "flowStage s = Questioning" and "currentQuestionIndex s = i" and "i < 5"
    and "trim a \<noteq> []"
  shows "\<exists>q. handleSendMessage env s a = Inr q \<and> flowStage q = Questioning
             \<and> currentQuestionIndex q = Suc i
             \<and> businessProfile q =
                 setProp (businessProfile s) (q_field (QUESTIONS ! i)) (answerValue (QUESTIONS ! i) a)
             \<and> stageLog q = stageLog s"
  using assms
  by (simp add: handleSendMessage_def handleQuestionResponse_def QUESTIONS_length Let_def)

lemma handleSendMessage_last_answer:
  assumes "flowStage s = Questioning" and "currentQuestionIndex s = 5" and "trim a \<noteq> []"
  shows "\<exists>g. handleSendMessage env s a =
                Inr (generateAllDocuments env (currentSessionId s) (currentUser s) g)
             \<and> flowStage g = Generating
             \<and> businessProfile g =
                 setProp (businessProfile s) (q_field (QUESTIONS ! 5)) (answerValue (QUESTIONS ! 5) a)
             \<and> stageLog g = stageLog s @ [Generating]"
proof -
  let ?profile = "setProp (businessProfile s) (q_field (QUESTIONS ! 5)) (answerValue (QUESTIONS ! 5) a)"
  let ?s1 = "addMessageAndSave (currentSessionId s) (currentUser s) (userMessage a) s"
  let ?g = "addMessageAndSave (currentSessionId s) (currentUser s) (aiMessage Processing)
              (setFlowStage Generating
                 (updateBusinessProfile (currentUser s) (currentSessionId s) ?profile
                    (?s1\<lparr>businessProfile := ?profile\<rparr>)))"
  have "handleSendMessage env s a =
        Inr (generateAllDocuments env (currentSessionId s) (currentUser s) ?g)"
    using assms
    by (simp add: handleSendMessage_def handleQuestionResponse_def QUESTIONS_length Let_def)
  moreover have "flowStage ?g = Generating" by simp
  moreover have "businessProfile ?g = ?profile" by simp
  moreover have "stageLog ?g = stageLog s @ [Generating]" by simp
  ultimately show ?thesis by blast
qed

text \<open>
  C4. A session that confirms its idea and answers the six questions has, when the last
  answer is handled, a business profile with exactly the six fields, in the order of the
  questions: \<open>partners_info\<close> holds the one-element list \<open>[{info: answer}]\<close> whatever
  the answer is, and the other five hold the answer as a string. Up to the fifth answer
  the stage is questioning, set once when the idea was confirmed. Handling the last
  answer sets the stage to generating and then starts \<open>generateAllDocuments\<close>, which
  keeps the profile and sets the stage to documents: the stages set during the session
  are questioning, generating and documents, in this order, the last two while the last
  answer is handled. The session starts in any state of the initial stage with an empty
  profile and index 0, which by \<open>initial_stage_of_session\<close> is every state of the
  initial stage that is reached; an answer is an input that is not blank, since blank
  input is ignored.
\<close>

theorem questionnaire_fills_profile:
  assumes "flowStage s = Initial" and "businessProfile s = []" and "currentQuestionIndex s = 0"
    and "trim choice = ''2''"
    and "trim a1 \<noteq> []" and "trim a2 \<noteq> []" and "trim a3 \<noteq> []"
    and "trim a4 \<noteq> []" and "trim a5 \<noteq> []" and "trim a6 \<noteq> []"
  shows "\<exists>q g sid usr.
           run env s [Send choice, Send a1, Send a2, Send a3, Send a4, Send a5] = Inr q
           \<and> flowStage q = Questioning
           \<and> stageLog q = stageLog s @ [Questioning]
           \<and> handleSendMessage env q a6 = Inr (generateAllDocuments env sid usr g)
           \<and> run env s [Send choice, Send a1, Send a2, Send a3, Send a4, Send a5, Send a6] =
               Inr (generateAllDocuments env sid usr g)
           \<and> flowStage g = Generating
           \<and> stageLog g = stageLog q @ [Generating]
           \<and> businessProfile g =
               [(''business_name'', JStr a1), (''company_description'', JStr a2),
                (''location'', JStr a3), (''partners_info'', JArr [JObj [(''info'', JStr a4)]]),
                (''color_preference'', JStr a5), (''style_preference'', JStr a6)]
           \<and> keys (businessProfile g) =
               [''business_name'', ''company_description'', ''location'', ''partners_info'',
                ''color_preference'', ''style_preference'']
           \<and> businessProfile (generateAllDocuments env sid usr g) = businessProfile g
           \<and> flowStage (generateAllDocuments env sid usr g) = Documents
           \<and> stageLog (generateAllDocuments env sid usr g) =
               stageLog s @ [Questioning, Generating, Documents]"
proof -
  obtain q0 where q0: "handleSendMessage env s choice = Inr q0" "flowStage q0 = Questioning"
      "currentQuestionIndex q0 = 0" "businessProfile q0 = []"
      "stageLog q0 = stageLog s @ [Questioning]"
    using handleSendMessage_confirmed [OF assms(1-4)] by blast
  obtain q1 where q1: "handleSendMessage env q0 a1 = Inr q1" "flowStage q1 = Questioning"
      "currentQuestionIndex q1 = 1"
      "businessProfile q1 = [(''business_name'', JStr a1)]"
      "stageLog q1 = stageLog q0"
    using handleSendMessage_answer [OF q0(2) q0(3) _ assms(5), of env] q0(4)
    by (auto simp add: QUESTIONS_fields answerValue_def setProp_def)
  obtain q2 where q2: "handleSendMessage env q1 a2 = Inr q2" "flowStage q2 = Questioning"
      "currentQuestionIndex q2 = 2"
      "businessProfile q2 = [(''business_name'', JStr a1), (''company_description'', JStr a2)]"
      "stageLog q2 = stageLog q1"
    using handleSendMessage_answer [OF q1(2) q1(3) _ assms(6), of env] q1(4)
    by (auto simp add: QUESTIONS_fields answerValue_def setProp_def)
  obtain q3 where q3: "handleSendMessage env q2 a3 = Inr q3" "flowStage q3 = Questioning"
      "currentQuestionIndex q3 = 3"
      "businessProfile q3 = [(''business_name'', JStr a1), (''company_description'', JStr a2),
                             (''location'', JStr a3)]"
      "stageLog q3 = stageLog q2"
    using handleSendMessage_answer [OF q2(2) q2(3) _ assms(7), of env] q2(4)
    by (auto simp add: QUESTIONS_fields answerValue_def setProp_def)
  obtain q4 where q4: "handleSendMessage env q3 a4 = Inr q4" "flowStage q4 = Questioning"
      "currentQuestionIndex q4 = 4"
      "businessProfile q4 = [(''business_name'', JStr a1), (''company_description'', JStr a2),
                             (''location'', JStr a3),
                             (''partners_info'', JArr [JObj [(''info'', JStr a4)]])]"
      "stageLog q4 = stageLog q3"
    using handleSendMessage_answer [OF q3(2) q3(3) _ assms(8), of env] q3(4)
    by (auto simp add: QUESTIONS_fields answerValue_def setProp_def)
  obtain q5 where q5: "handleSendMessage env q4 a5 = Inr q5" "flowStage q5 = Questioning"
      "currentQuestionIndex q5 = 5"
      "businessProfile q5 = [(''business_name'', JStr a1), (''company_description'', JStr a2),
                             (''location'', JStr a3),
                             (''partners_info'', JArr [JObj [(''info'', JStr a4)]]),
                             (''color_preference'', JStr a5)]"
      "stageLog q5 = stageLog q4"
    using handleSendMessage_answer [OF q4(2) q4(3) _ assms(9), of env] q4(4)
    by (auto simp add: QUESTIONS_fields answerValue_def setProp_def)
  obtain g where g: "handleSendMessage env q5 a6 =
        Inr (generateAllDocuments env (currentSessionId q5) (currentUser q5) g)"
      "flowStage g = Generating"
      "businessProfile g = [(''business_name'', JStr a1), (''company_description'', JStr a2),
                            (''location'', JStr a3),
                            (''partners_info'', JArr [JObj [(''info'', JStr a4)]]),
                            (''color_preference'', JStr a5), (''style_preference'', JStr a6)]"
      "stageLog g = stageLog q5 @ [Generating]"
    using handleSendMessage_last_answer [OF q5(2) q5(3) assms(10), of env] q5(4)
    by (auto simp add: QUESTIONS_fields answerValue_def setProp_def)
  have log5: "stageLog q5 = stageLog s @ [Questioning]"
    by (simp add: q5(5) q4(5) q3(5) q2(5) q1(5) q0(5))
  have run5: "run env s [Send choice, Send a1, Send a2, Send a3, Send a4, Send a5] = Inr q5"
    by (simp add: q0(1) q1(1) q2(1) q3(1) q4(1) q5(1))
  have run6: "run env s [Send choice, Send a1, Send a2, Send a3, Send a4, Send a5, Send a6] =
        Inr (generateAllDocuments env (currentSessionId q5) (currentUser q5) g)"
    by (simp add: q0(1) q1(1) q2(1) q3(1) q4(1) q5(1) g(1))
  have fields: "keys (businessProfile g) =
      [''business_name'', ''company_description'', ''location'', ''partners_info'',
       ''color_preference'', ''style_preference'']"
    by (simp add: g(3) keys_def)
  have log: "stageLog (generateAllDocuments env (currentSessionId q5) (currentUser q5) g) =
      stageLog s @ [Questioning, Generating, Documents]"
    by (simp add: g(4) log5)
  have "run env s [Send choice, Send a1, Send a2, Send a3, Send a4, Send a5] = Inr q5
      \<and> flowStage q5 = Questioning
      \<and> stageLog q5 = stageLog s @ [Questioning]
      \<and> handleSendMessage env q5 a6 =
           Inr (generateAllDocuments env (currentSessionId q5) (currentUser q5) g)
      \<and> run env s [Send choice, Send a1, Send a2, Send a3, Send a4, Send a5, Send a6] =
           Inr (generateAllDocuments env (currentSessionId q5) (currentUser q5) g)
      \<and> flowStage g = Generating
      \<and> stageLog g = stageLog q5 @ [Generating]
      \<and> businessProfile g =
           [(''business_name'', JStr a1), (''company_description'', JStr a2),
            (''location'', JStr a3), (''partners_info'', JArr [JObj [(''info'', JStr a4)]]),
            (''color_preference'', JStr a5), (''style_preference'', JStr a6)]
      \<and> keys (businessProfile g) =
           [''business_name'', ''company_description'', ''location'', ''partners_info'',
            ''color_preference'', ''style_preference'']
      \<and> businessProfile (generateAllDocuments env (currentSessionId q5) (currentUser q5) g) =
           businessProfile g
      \<and> flowStage (generateAllDocuments env (currentSessionId q5) (currentUser q5) g) = Documents
      \<and> stageLog (generateAllDocuments env (currentSessionId q5) (currentUser q5) g) =
           stageLog s @ [Questioning, Generating, Documents]"
    using run5 q5(2) log5 g(1) run6 g(2) g(4) g(3) fields log by simp
  then show ?thesis by blast
qed

theorem questionnaire_fills_profile_witness:
  "flowStage (initialState ''u1'') = Initial
   \<and> businessProfile (initialState ''u1'') = []
   \<and> currentQuestionIndex (initialState ''u1'') = 0
   \<and> (case run oneFlawedEnv (initialState ''u1'')
              [Send ''2'', Send ''Acme'', Send ''We sell anvils'', Send ''Pune'',
               Send ''Two partners'', Send ''Earthy'', Send ''Modern''] of
         Inl err \<Rightarrow> None
       | Inr s \<Rightarrow> Some (businessProfile s, flowStage s, stageLog s))
       = Some ([(''business_name'', JStr ''Acme''), (''company_description'', JStr ''We sell anvils''),
                (''location'', JStr ''Pune''),
                (''partners_info'', JArr [JObj [(''info'', JStr ''Two partners'')]]),
                (''color_preference'', JStr ''Earthy''), (''style_preference'', JStr ''Modern'')],
               Documents, [Questioning, Generating, Documents])"
proof -
  have init: "flowStage (initialState ''u1'') = Initial" "businessProfile (initialState ''u1'') = []"
      "currentQuestionIndex (initialState ''u1'') = 0"
    by (simp_all add: initialState_def)
  have log: "stageLog (initialState ''u1'') = []"
    by (simp add: initialState_def)
  have answers: "trim ''2'' = ''2''" "trim ''Acme'' \<noteq> []" "trim ''We sell anvils'' \<noteq> []"
      "trim ''Pune'' \<noteq> []" "trim ''Two partners'' \<noteq> []" "trim ''Earthy'' \<noteq> []"
      "trim ''Modern'' \<noteq> []"
    by (simp_all add: trim_def isWhiteSpace_def)
  from questionnaire_fills_profile [OF init answers, of oneFlawedEnv]
  obtain g sid usr where
    "run oneFlawedEnv (initialState ''u1'')
        [Send ''2'', Send ''Acme'', Send ''We sell anvils'', Send ''Pune'',
         Send ''Two partners'', Send ''Earthy'', Send ''Modern''] =
      Inr (generateAllDocuments oneFlawedEnv sid usr g)"
    "businessProfile g =
       [(''business_name'', JStr ''Acme''), (''company_description'', JStr ''We sell anvils''),
        (''location'', JStr ''Pune''),
        (''partners_info'', JArr [JObj [(''info'', JStr ''Two partners'')]]),
        (''color_preference'', JStr ''Earthy''), (''style_preference'', JStr ''Modern'')]"
    "stageLog (generateAllDocuments oneFlawedEnv sid usr g) =
       stageLog (initialState ''u1'') @ [Questioning, Generating, Documents]"
    by blast
  then show ?thesis using init log by simp
qed

section \<open>Document generation\<close>








text \<open>
  The checks are those of the untyped code: content that is a number has no length, so
  it is not below 100 and the document is completed, and an error field that is \<open>0\<close> or
  \<open>false\<close> is no error.
\<close>

lemma numeric_content_is_completed:
  "wellFormed toNum (HttpResponse True (Some (JObj [(''error'', JNum 0), (''fullContent'', JNum 12345)])))"
  by (simp add: wellFormed_def resultField_def getProp_def truthy_def contentOf_def orElse_def
        lengthOf_def belowHundred_def)
















section \<open>The stored business profile\<close>

lemma getProp_setProp:
  "getProp (setProp obj k v) k' = (if k' = k then v else getProp obj k')"
  by (simp add: getProp_def setProp_def update_conv')

lemma keys_setProp: "set (keys (setProp obj k v)) = insert k (set (keys obj))"
  using dom_update [of k v obj] by (simp add: keys_def setProp_def)

lemma distinct_setProp: "distinct (keys obj) \<Longrightarrow> distinct (keys (setProp obj k v))"
  by (simp add: keys_def setProp_def distinct_update)

lemma getProp_missing: "k \<notin> set (keys obj) \<Longrightarrow> getProp obj k = JUndefined"
  by (simp add: getProp_def keys_def map_of_eq_None_iff [THEN iffD2])

lemma merge_fold_getProp:
  "getProp (foldl (\<lambda>mergedProfile key.
                     if overwrites (getProp profile key)
                     then setProp mergedProfile key (getProp profile key)
                     else mergedProfile) existing ks) k =
   (if k \<in> set ks \<and> overwrites (getProp profile k) then getProp profile k else getProp existing k)"
  by (induction ks arbitrary: existing) (auto simp add: getProp_setProp)

lemma merge_fold_keys:
  "set (keys existing) \<subseteq>
   set (keys (foldl (\<lambda>mergedProfile key.
                       if overwrites (getProp profile key)
                       then setProp mergedProfile key (getProp profile key)
                       else mergedProfile) existing ks))"
proof (induction ks arbitrary: existing)
  case Nil
  then show ?case by simp
next
  case (Cons key ks)
  show ?case
  proof (cases "overwrites (getProp profile key)")
    case True
    have "set (keys existing) \<subseteq> set (keys (setProp existing key (getProp profile key)))"
      by (auto simp add: keys_setProp)
    also note Cons.IH [of "setProp existing key (getProp profile key)"]
    finally show ?thesis using True by simp
  next
    case False
    then show ?thesis using Cons.IH [of existing] by simp
  qed
qed

lemma merge_fold_distinct:
  "distinct (keys existing) \<Longrightarrow>
   distinct (keys (foldl (\<lambda>mergedProfile key.
                            if overwrites (getProp profile key)
                            then setProp mergedProfile key (getProp profile key)
                            else mergedProfile) existing ks))"
  by (induction ks arbitrary: existing) (simp_all add: distinct_setProp)

lemma getProp_mergeProfile:
  "getProp (mergeProfile existing profile) k =
   (if overwrites (getProp profile k) then getProp profile k else getProp existing k)"
proof (cases "k \<in> set (keys profile)")
  case True
  then show ?thesis by (simp add: mergeProfile_def merge_fold_getProp)
next
  case False
  then have "\<not> overwrites (getProp profile k)"
    by (simp add: getProp_missing overwrites_def)
  then show ?thesis by (simp add: mergeProfile_def merge_fold_getProp)
qed

lemma spread_snoc: "spread a (b @ [kv]) = setProp (spread a b) (fst kv) (snd kv)"
  by (simp add: spread_def)

lemma getProp_snoc:
  "getProp (b @ [kv]) k = (if k \<in> set (keys b) then getProp b k
                           else if k = fst kv then snd kv else JUndefined)"
proof (cases "map_of b k")
  case None
  then have "k \<notin> set (keys b)" by (simp add: keys_def map_of_eq_None_iff)
  with None show ?thesis by (cases kv) (simp add: getProp_def map_add_def)
next
  case (Some v)
  then have "k \<in> set (keys b)"
    by (metis keys_def map_of_eq_None_iff option.distinct(1) set_map)
  with Some show ?thesis by (simp add: getProp_def map_add_def)
qed

lemma getProp_spread:
  "distinct (keys b) \<Longrightarrow>
   getProp (spread a b) k = (if k \<in> set (keys b) then getProp b k else getProp a k)"
proof (induction b rule: rev_induct)
  case Nil
  then show ?case by (simp add: spread_def keys_def)
next
  case (snoc kv b)
  then have d: "distinct (keys b)" and fresh: "fst kv \<notin> set (keys b)"
    by (simp_all add: keys_def)
  show ?case
    using snoc.IH [OF d] fresh
    by (auto simp add: spread_snoc getProp_setProp getProp_snoc keys_def)
qed

lemma getProp_stored:
  assumes "distinct (keys existing)"
  shows "getProp (spread existing (mergeProfile existing profile)) k =
         (if overwrites (getProp profile k) then getProp profile k else getProp existing k)"
proof -
  let ?m = "mergeProfile existing profile"
  have d: "distinct (keys ?m)"
    using assms by (simp add: mergeProfile_def merge_fold_distinct)
  have sub: "set (keys existing) \<subseteq> set (keys ?m)"
    by (simp add: mergeProfile_def merge_fold_keys)
  have "getProp (spread existing ?m) k = getProp ?m k"
  proof (cases "k \<in> set (keys ?m)")
    case True
    then show ?thesis by (simp add: getProp_spread [OF d])
  next
    case False
    with sub have "k \<notin> set (keys existing)" by blast
    with False show ?thesis by (simp add: getProp_spread [OF d] getProp_missing)
  qed
  then show ?thesis by (simp add: getProp_mergeProfile)
qed

lemma filter_replace:
  assumes "P c"
  shows "filter P (map (\<lambda>row. if P row then c else row) rows) = map (\<lambda>row. c) (filter P rows)"
  using assms by (induction rows) simp_all

lemma updateBusinessProfile_existing:
  assumes "sid \<noteq> []" and "filter (hasSession sid) (business_profiles s) = [existing]"
  shows "business_profiles (updateBusinessProfile (Some uid) sid profile s) =
         map (\<lambda>row. if hasSession sid row then spread row (mergeProfile existing profile) else row)
             (business_profiles s)"
  using assms by (simp add: updateBusinessProfile_def maybeSingle_def Let_def)

lemma updateBusinessProfile_new:
  assumes "sid \<noteq> []" and "filter (hasSession sid) (business_profiles s) = []"
  shows "business_profiles (updateBusinessProfile (Some uid) sid profile s) =
         business_profiles s @ [spread [(''user_id'', JStr uid), (''session_id'', JStr sid)] profile]"
  using assms by (simp add: updateBusinessProfile_def maybeSingle_def)
lemma keys_spread_subset: "set (keys a) \<subseteq> set (keys (spread a b))"
proof (induction b rule: rev_induct)
  case Nil
  then show ?case by (simp add: spread_def)
next
  case (snoc kv b)
  have "set (keys (spread a (b @ [kv]))) = insert (fst kv) (set (keys (spread a b)))"
    by (simp add: spread_snoc keys_setProp)
  with snoc show ?case by blast
qed

text \<open>
  C5. An update of the stored profile drops no field. When the session has one stored
  row, the update leaves in its place a row that has every field of the old one; a field
  takes the incoming value when that is neither \<open>undefined\<close> (absent), \<open>null\<close> nor the
  empty string, and keeps the stored value otherwise. Starting with no row for the
  session, the update \<open>{a: x}\<close> followed by \<open>{b: y}\<close> (two different fields other than the
  session id, \<open>y\<close> not empty) leaves one row for the session, holding \<open>a: x\<close> and \<open>b: y\<close>.
\<close>

theorem profile_updates_keep_fields:
  assumes "sid \<noteq> []"
  shows "(filter (hasSession sid) (business_profiles s) = [existing] \<and> distinct (keys existing) \<longrightarrow>
            (\<exists>stored.
               business_profiles (updateBusinessProfile (Some uid) sid profile s) =
                 map (\<lambda>row. if hasSession sid row then stored else row) (business_profiles s)
               \<and> set (keys existing) \<subseteq> set (keys stored)
               \<and> (\<forall>k. getProp stored k =
                      (if overwrites (getProp profile k) then getProp profile k
                       else getProp existing k))))
       \<and> (filter (hasSession sid) (business_profiles s) = []
            \<and> a \<noteq> b \<and> a \<noteq> ''session_id'' \<and> b \<noteq> ''session_id'' \<and> y \<noteq> [] \<longrightarrow>
            (\<exists>stored.
               filter (hasSession sid)
                 (business_profiles
                    (updateBusinessProfile (Some uid) sid [(b, JStr y)]
                       (updateBusinessProfile (Some uid) sid [(a, JStr x)] s))) = [stored]
               \<and> getProp stored a = JStr x \<and> getProp stored b = JStr y))"
proof (intro conjI impI)
  assume h: "filter (hasSession sid) (business_profiles s) = [existing] \<and> distinct (keys existing)"
  let ?stored = "spread existing (mergeProfile existing profile)"
  have only: "row = existing" if "row \<in> set (business_profiles s)" and "hasSession sid row" for row
  proof -
    from that have "row \<in> set (filter (hasSession sid) (business_profiles s))" by simp
    with h show ?thesis by simp
  qed
  have "business_profiles (updateBusinessProfile (Some uid) sid profile s) =
        map (\<lambda>row. if hasSession sid row then spread row (mergeProfile existing profile) else row)
            (business_profiles s)"
    using assms h by (simp add: updateBusinessProfile_existing)
  also have "\<dots> = map (\<lambda>row. if hasSession sid row then ?stored else row) (business_profiles s)"
    by (rule map_cong) (auto dest: only)
  finally have table: "business_profiles (updateBusinessProfile (Some uid) sid profile s) =
        map (\<lambda>row. if hasSession sid row then ?stored else row) (business_profiles s)" .
  have fields: "set (keys existing) \<subseteq> set (keys ?stored)"
    by (rule keys_spread_subset)
  have vals: "\<forall>k. getProp ?stored k =
      (if overwrites (getProp profile k) then getProp profile k else getProp existing k)"
    using h by (simp add: getProp_stored)
  from table fields vals
  show "\<exists>stored.
          business_profiles (updateBusinessProfile (Some uid) sid profile s) =
            map (\<lambda>row. if hasSession sid row then stored else row) (business_profiles s)
          \<and> set (keys existing) \<subseteq> set (keys stored)
          \<and> (\<forall>k. getProp stored k =
                 (if overwrites (getProp profile k) then getProp profile k
                  else getProp existing k))"
    by blast
next
  assume h: "filter (hasSession sid) (business_profiles s) = []
            \<and> a \<noteq> b \<and> a \<noteq> ''session_id'' \<and> b \<noteq> ''session_id'' \<and> y \<noteq> []"
  then have none: "filter (hasSession sid) (business_profiles s) = []"
    and ne: "a \<noteq> b" "b \<noteq> a" "''session_id'' \<noteq> a" "''session_id'' \<noteq> b" "y \<noteq> []"
    by blast+
  let ?row1 = "spread [(''user_id'', JStr uid), (''session_id'', JStr sid)] [(a, JStr x)]"
  let ?s1 = "updateBusinessProfile (Some uid) sid [(a, JStr x)] s"
  let ?stored = "spread ?row1 (mergeProfile ?row1 [(b, JStr y)])"
  have row1: "?row1 = setProp [(''user_id'', JStr uid), (''session_id'', JStr sid)] a (JStr x)"
    by (simp add: spread_def)
  have row1_a: "getProp ?row1 a = JStr x"
    by (simp add: row1 getProp_setProp)
  have "getProp ?row1 ''session_id'' = getProp [(''user_id'', JStr uid), (''session_id'', JStr sid)] ''session_id''"
    using ne by (simp add: row1 getProp_setProp)
  also have "\<dots> = JStr sid"
    by (simp add: getProp_def)
  finally have row1_session: "hasSession sid ?row1"
    by (simp add: hasSession_def)
  have row1_distinct: "distinct (keys ?row1)"
    unfolding row1 by (rule distinct_setProp) (simp add: keys_def)
  have table1: "business_profiles ?s1 = business_profiles s @ [?row1]"
    using assms none by (simp add: updateBusinessProfile_new)
  then have single: "filter (hasSession sid) (business_profiles ?s1) = [?row1]"
    using none row1_session by simp
  have undefined_a: "getProp [(b, JStr y)] a = JUndefined"
    using ne by (simp add: getProp_def)
  have undefined_session: "getProp [(b, JStr y)] ''session_id'' = JUndefined"
    using ne by (simp add: getProp_def)
  have stored_a: "getProp ?stored a = JStr x"
    using row1_a undefined_a by (simp add: getProp_stored [OF row1_distinct] overwrites_def)
  have value_b: "getProp [(b, JStr y)] b = JStr y"
    by (simp add: getProp_def)
  have stored_b: "getProp ?stored b = JStr y"
    using ne value_b by (simp add: getProp_stored [OF row1_distinct] overwrites_def)
  have stored_session: "hasSession sid ?stored"
    using row1_session undefined_session
    by (simp add: hasSession_def getProp_stored [OF row1_distinct] overwrites_def)
  have only: "row = ?row1" if "row \<in> set (business_profiles ?s1)" and "hasSession sid row" for row
  proof -
    from that have "row \<in> set (filter (hasSession sid) (business_profiles ?s1))" by simp
    with single show ?thesis by simp
  qed
  have "business_profiles (updateBusinessProfile (Some uid) sid [(b, JStr y)] ?s1) =
        map (\<lambda>row. if hasSession sid row then spread row (mergeProfile ?row1 [(b, JStr y)]) else row)
            (business_profiles ?s1)"
    using assms single by (simp add: updateBusinessProfile_existing)
  also have "\<dots> = map (\<lambda>row. if hasSession sid row then ?stored else row) (business_profiles ?s1)"
    by (rule map_cong) (auto dest: only)
  finally have "filter (hasSession sid)
        (business_profiles (updateBusinessProfile (Some uid) sid [(b, JStr y)] ?s1)) =
      map (\<lambda>row. ?stored) (filter (hasSession sid) (business_profiles ?s1))"
    using stored_session by (simp add: filter_replace)
  then have "filter (hasSession sid)
        (business_profiles (updateBusinessProfile (Some uid) sid [(b, JStr y)] ?s1)) = [?stored]"
    using single by simp
  with stored_a stored_b
  show "\<exists>stored.
          filter (hasSession sid)
            (business_profiles
               (updateBusinessProfile (Some uid) sid [(b, JStr y)]
                  (updateBusinessProfile (Some uid) sid [(a, JStr x)] s))) = [stored]
          \<and> getProp stored a = JStr x \<and> getProp stored b = JStr y"
    by blast
qed

theorem profile_updates_keep_fields_witness:
  "filter (hasSession ''s1'') (business_profiles (initialState ''u1'')) = []
   \<and> (\<exists>stored.
         filter (hasSession ''s1'')
           (business_profiles
              (updateBusinessProfile (Some ''u1'') ''s1'' [(''b'', JStr ''y'')]
                 (updateBusinessProfile (Some ''u1'') ''s1'' [(''a'', JStr ''x'')]
                    (initialState ''u1'')))) = [stored]
         \<and> getProp stored ''a'' = JStr ''x'' \<and> getProp stored ''b'' = JStr ''y'')
   \<and> business_profiles
        (updateBusinessProfile (Some ''u1'') ''s1'' [(''b'', JStr ''y'')]
           (updateBusinessProfile (Some ''u1'') ''s1'' [(''a'', JStr ''x'')] (initialState ''u1'')))
      = [[(''user_id'', JStr ''u1''), (''session_id'', JStr ''s1''),
          (''a'', JStr ''x''), (''b'', JStr ''y'')]]"
proof -
  have empty: "filter (hasSession ''s1'') (business_profiles (initialState ''u1'')) = []"
    by (simp add: initialState_def)
  have sid: "''s1'' \<noteq> []" by simp
  have names: "''a'' \<noteq> ''b''" "''a'' \<noteq> ''session_id''" "''b'' \<noteq> ''session_id''" "''y'' \<noteq> []"
    by simp_all
  have table: "business_profiles
        (updateBusinessProfile (Some ''u1'') ''s1'' [(''b'', JStr ''y'')]
           (updateBusinessProfile (Some ''u1'') ''s1'' [(''a'', JStr ''x'')] (initialState ''u1'')))
      = [[(''user_id'', JStr ''u1''), (''session_id'', JStr ''s1''),
          (''a'', JStr ''x''), (''b'', JStr ''y'')]]"
    by (simp add: updateBusinessProfile_def initialState_def maybeSingle_def hasSession_def
          getProp_def spread_def setProp_def mergeProfile_def keys_def overwrites_def Let_def)
  from profile_updates_keep_fields
         [OF sid, of "initialState ''u1''" "[]" "''u1''" "[]" "''a''" "''b''" "''y''" "''x''"]
       empty names table
  show ?thesis by blast
qed
section \<open>The stored key points\<close>

text \<open>
  C6 fails for every list of key points that is not empty. The HR guide function writes
  the column \<open>key_points\<close> as the text that \<open>JSON.stringify\<close> gives, a string and not a
  list; the loader takes the column only when it is an array and falls back to the empty
  list otherwise. With the rows returned as they are stored, a document written with two
  key points is loaded with none.
\<close>

theorem stored_key_points_are_not_reloaded:
  "map gd_key_points
       (getDocumentsBySession
          (storeHrDocument stringify ''d1'' ''u1'' ''s1'' [''Point one'', ''Point two''] content pdf [])
          ''s1'')
     = [JStr (stringify [''Point one'', ''Point two''])]
   \<and> map d_keyPoints
       (documents
          (loadDocumentsFromDatabase ''s1''
             (Some (getDocumentsBySession
                      (storeHrDocument stringify ''d1'' ''u1'' ''s1'' [''Point one'', ''Point two'']
                         content pdf [])
                      ''s1''))
             s))
     = [JArr []]"
  by (simp add: loadDocumentsFromDatabase_def getDocumentsBySession_def storeHrDocument_def
        maybeSingle_def hrColumns_def formatDoc_def)

end
